theory Spec2Isabelle
  imports Complex_Main
begin

section \<open>Strings and the patterns the scanner tests them against\<close>

text \<open>
  JavaScript strings are modelled as \<open>string\<close>. The scanner uses three regular
  expressions and one \<open>String.includes\<close>; all of them are plain substring or equality
  tests, two of them ignoring the case of ASCII letters (the \<open>i\<close> flag without the
  \<open>u\<close> flag folds ASCII letters only onto ASCII letters).
\<close>

definition toLowerCase :: "char \<Rightarrow> char" where
  "toLowerCase c =
     (case map_of (zip ''ABCDEFGHIJKLMNOPQRSTUVWXYZ'' ''abcdefghijklmnopqrstuvwxyz'') c of
        Some l \<Rightarrow> l
      | None \<Rightarrow> c)"

fun startsWith :: "string \<Rightarrow> string \<Rightarrow> bool" where
  "startsWith s [] = True"
| "startsWith [] (p # ps) = False"
| "startsWith (c # cs) (p # ps) = (c = p \<and> startsWith cs ps)"

text \<open>\<open>str_includes s p\<close> is \<open>s.includes(p)\<close>: \<open>p\<close> occurs in \<open>s\<close> as a substring.\<close>

fun str_includes :: "string \<Rightarrow> string \<Rightarrow> bool" where
  "str_includes [] p = (p = [])"
| "str_includes (c # cs) p = (startsWith (c # cs) p \<or> str_includes cs p)"

text \<open>\<open>/p/i.test(s)\<close> for a pattern \<open>p\<close> that is a lower-case literal.\<close>

definition test_i :: "string \<Rightarrow> string \<Rightarrow> bool" where
  "test_i p s = str_includes (map toLowerCase s) p"

section \<open>Camera acquisition\<close>

text \<open>
  A \<open>MediaStream\<close> is the list of its tracks; of a track the scanner reads the kind,
  the label and whether its settings carry a \<open>torch\<close> entry. \<open>tid\<close> is the identity of
  the track object.
\<close>

datatype track_kind = Audio | Video

record track =
  tid :: nat
  kind :: track_kind
  label :: string
  torch :: bool

type_synonym media_stream = "track list"

definition getVideoTracks :: "media_stream \<Rightarrow> track list" where
  "getVideoTracks stream = filter (\<lambda>t. kind t = Video) stream"

text \<open>
  \<open>MediaTrackConstraints\<close> as far as the scanner builds them: an optional
  \<open>width: { min: n }\<close>, an optional \<open>facingMode: { exact: m }\<close> and an optional
  \<open>deviceId: { exact: d }\<close>.
\<close>

record constraints =
  width_min :: "nat option"
  facingMode_exact :: "string option"
  deviceId_exact :: "string option"

datatype preference_type = FacingModePref | DeviceIdPref

text \<open>\<open>/^(environment|user)$/.test(this._preferredCamera) ? 'facingMode' : 'deviceId'\<close>\<close>

definition preferenceType :: "string \<Rightarrow> preference_type" where
  "preferenceType preferredCamera =
     (if preferredCamera = ''environment'' \<or> preferredCamera = ''user''
      then FacingModePref else DeviceIdPref)"

definition constraintsWithoutCamera :: "constraints list" where
  "constraintsWithoutCamera =
     [\<lparr>width_min = Some 1024, facingMode_exact = None, deviceId_exact = None\<rparr>,
      \<lparr>width_min = Some 768, facingMode_exact = None, deviceId_exact = None\<rparr>,
      \<lparr>width_min = None, facingMode_exact = None, deviceId_exact = None\<rparr>]"

definition constraintsWithCamera :: "string \<Rightarrow> constraints list" where
  "constraintsWithCamera preferredCamera =
     map (\<lambda>constraint.
            (case preferenceType preferredCamera of
               FacingModePref \<Rightarrow> constraint\<lparr>facingMode_exact := Some preferredCamera\<rparr>
             | DeviceIdPref \<Rightarrow> constraint\<lparr>deviceId_exact := Some preferredCamera\<rparr>))
         constraintsWithoutCamera"

text \<open>The list the \<open>for\<close> loop of \<open>_getCameraStream\<close> runs over.\<close>

definition constraintSets :: "string \<Rightarrow> constraints list" where
  "constraintSets preferredCamera =
     constraintsWithCamera preferredCamera @ constraintsWithoutCamera"

text \<open>\<open>_getFacingMode\<close>: \<open>None\<close> is the source's \<open>null\<close> (unknown).\<close>

definition getFacingMode :: "media_stream \<Rightarrow> string option" where
  "getFacingMode videoStream =
     (case getVideoTracks videoStream of
        [] \<Rightarrow> None
      | videoTrack # _ \<Rightarrow>
          (if test_i ''rear'' (label videoTrack) \<or> test_i ''back'' (label videoTrack)
               \<or> test_i ''environment'' (label videoTrack)
           then Some ''environment''
           else if test_i ''front'' (label videoTrack) \<or> test_i ''user'' (label videoTrack)
               \<or> test_i ''face'' (label videoTrack)
           then Some ''user''
           else None))"

text \<open>
  The expression that follows a successful \<open>getUserMedia\<close> in \<open>_getCameraStream\<close>:
  the label's answer, else the preference when the constraint set carried a facing mode,
  else the side opposite to \<open>'environment'\<close>, else \<open>'environment'\<close>.
\<close>

definition facingModeOf :: "string \<Rightarrow> constraints \<Rightarrow> media_stream \<Rightarrow> string" where
  "facingModeOf preferredCamera constraints stream =
     (case getFacingMode stream of
        Some m \<Rightarrow> m
      | None \<Rightarrow>
          (if facingMode_exact constraints \<noteq> None then preferredCamera
           else if preferredCamera = ''environment'' then ''user''
           else ''environment''))"

datatype camera_error = CameraNotFound

text \<open>
  The environment is \<open>navigator.mediaDevices\<close>: absent (\<open>None\<close>), or a
  \<open>getUserMedia\<close> whose answer to the \<open>i\<close>-th negotiation of one acquisition, for
  the constraint set it is given, is a stream or a rejection (\<open>None\<close>). The loop's
  \<open>catch (e) {}\<close> swallows the rejection and goes on with the next constraint set.
  Besides its result the model returns the constraint sets it has negotiated, in order.

  \<open>this._preferredCamera\<close> is a field, and \<open>setCamera\<close> can assign it while a
  negotiation is pending. \<open>_getCameraStream\<close> builds its constraint sets from the value
  the field has when it is called, before the first \<open>await\<close>; the expression that infers
  the facing side reads the field again, after the \<open>await\<close>. \<open>preferredCamera_now i\<close>
  is the value of the field when the \<open>i\<close>-th negotiation has resolved.
\<close>

type_synonym user_media = "nat \<Rightarrow> constraints \<Rightarrow> media_stream option"

fun tryConstraints ::
  "user_media \<Rightarrow> (nat \<Rightarrow> string) \<Rightarrow> nat \<Rightarrow> constraints list
     \<Rightarrow> (camera_error + media_stream \<times> string) \<times> constraints list" where
  "tryConstraints getUserMedia preferredCamera_now i [] = (Inl CameraNotFound, [])"
| "tryConstraints getUserMedia preferredCamera_now i (constraints # rest) =
     (case getUserMedia i constraints of
        Some stream \<Rightarrow>
          (Inr (stream, facingModeOf (preferredCamera_now i) constraints stream), [constraints])
      | None \<Rightarrow>
          (let (r, tried) = tryConstraints getUserMedia preferredCamera_now (Suc i) rest
           in (r, constraints # tried)))"

definition getCameraStream ::
  "user_media option \<Rightarrow> string \<Rightarrow> (nat \<Rightarrow> string)
     \<Rightarrow> (camera_error + media_stream \<times> string) \<times> constraints list" where
  "getCameraStream mediaDevices preferredCamera preferredCamera_now =
     (case mediaDevices of
        None \<Rightarrow> (Inl CameraNotFound, [])
      | Some getUserMedia \<Rightarrow>
          tryConstraints getUserMedia preferredCamera_now 0 (constraintSets preferredCamera))"

section \<open>Rasterising the scan region\<close>

text \<open>
  What \<open>_drawToCanvas\<close> finds where it reads a number: \<open>undefined\<close>, a finite number,
  \<open>NaN\<close>, an infinity, or an object that converts to no number (the \<open>width\<close> of an
  \<open>SVGImageElement\<close> is an \<open>SVGAnimatedLength\<close>). A finite number is a rational here:
  the finite doubles are among the rationals, and the code does no arithmetic on them.
\<close>

datatype js_value = Undefined | Num rat | NaN | PosInfinity | NegInfinity | Object

text \<open>\<open>undefined\<close>, \<open>0\<close> and \<open>NaN\<close> are falsy.\<close>

definition truthy :: "js_value \<Rightarrow> bool" where
  "truthy v =
     (case v of
        Undefined \<Rightarrow> False
      | Num q \<Rightarrow> q \<noteq> 0
      | NaN \<Rightarrow> False
      | PosInfinity \<Rightarrow> True
      | NegInfinity \<Rightarrow> True
      | Object \<Rightarrow> True)"

text \<open>
  A \<open>ScanRegion\<close>: every field is a number or \<open>undefined\<close>; the fields \<open>x\<close>,
  \<open>y\<close>, \<open>width\<close> and \<open>height\<close> carry the prefix \<open>region_\<close>.
\<close>

record scan_region =
  region_x :: js_value
  region_y :: js_value
  region_width :: js_value
  region_height :: js_value
  downScaledWidth :: js_value
  downScaledHeight :: js_value

text \<open>
  What \<open>_drawToCanvas\<close> reads of the image: \<open>videoWidth\<close> and \<open>videoHeight\<close>
  (\<open>undefined\<close> unless the image is a video element) and \<open>width\<close> and \<open>height\<close>.
\<close>

record image_source =
  videoWidth :: js_value
  videoHeight :: js_value
  image_width :: js_value
  image_height :: js_value

text \<open>
  A canvas with its \<open>width\<close> and \<open>height\<close>, which are of the type
  \<open>unsigned long\<close>.
\<close>

record canvas =
  canvas_width :: nat
  canvas_height :: nat

text \<open>The arguments of the \<open>drawImage\<close> call: source rectangle, destination rectangle.\<close>

record draw_call =
  sx :: js_value
  sy :: js_value
  sWidth :: js_value
  sHeight :: js_value
  dx :: nat
  dy :: nat
  dWidth :: nat
  dHeight :: nat

text \<open>\<open>v ? v : d\<close> and \<open>v || d\<close>.\<close>

definition or_else :: "js_value \<Rightarrow> js_value \<Rightarrow> js_value" where
  "or_else v d = (if truthy v then v else d)"

text \<open>
  \<open>scanRegion && scanRegion.f\<close>; without a region it is the falsy region itself,
  \<open>Undefined\<close> here.
\<close>

definition region_field :: "(scan_region \<Rightarrow> js_value) \<Rightarrow> scan_region option \<Rightarrow> js_value" where
  "region_field f scanRegion = (case scanRegion of None \<Rightarrow> Undefined | Some r \<Rightarrow> f r)"

text \<open>
  The conversion of a value to \<open>unsigned long\<close> that an assignment to \<open>canvas.width\<close>
  or \<open>canvas.height\<close> makes: what has no finite number gives 0; a finite number loses its
  fraction (towards 0) and is taken modulo \<open>2\<^sup>3\<^sup>2\<close>.
\<close>

definition to_unsigned_long :: "js_value \<Rightarrow> nat" where
  "to_unsigned_long v =
     (case v of
        Num q \<Rightarrow> nat ((if 0 \<le> q then \<lfloor>q\<rfloor> else - \<lfloor>- q\<rfloor>) mod 4294967296)
      | _ \<Rightarrow> 0)"

text \<open>
  The setter of \<open>canvas.width\<close> (\<open>fallback\<close> 300) and \<open>canvas.height\<close>
  (\<open>fallback\<close> 150): a converted value beyond 2147483647 gives the default size.
\<close>

definition set_size :: "nat \<Rightarrow> js_value \<Rightarrow> nat" where
  "set_size fallback v =
     (let n = to_unsigned_long v in if n \<le> 2147483647 then n else fallback)"

text \<open>\<open>document.createElement('canvas')\<close>: a canvas of the default size.\<close>

definition createCanvas :: canvas where
  "createCanvas = \<lparr>canvas_width = 300, canvas_height = 150\<rparr>"

definition drawToCanvas ::
  "image_source \<Rightarrow> scan_region option \<Rightarrow> canvas option \<Rightarrow> bool \<Rightarrow> canvas \<times> draw_call" where
  "drawToCanvas img scanRegion canvas0 disallowCanvasResizing =
     (let canvas = (case canvas0 of Some c \<Rightarrow> c | None \<Rightarrow> createCanvas);
          scanRegionX = or_else (region_field region_x scanRegion) (Num 0);
          scanRegionY = or_else (region_field region_y scanRegion) (Num 0);
          scanRegionWidth =
            or_else (region_field region_width scanRegion)
              (or_else (videoWidth img) (image_width img));
          scanRegionHeight =
            or_else (region_field region_height scanRegion)
              (or_else (videoHeight img) (image_height img));
          canvas =
            (if \<not> disallowCanvasResizing then
               (let canvasWidth = or_else (region_field downScaledWidth scanRegion) scanRegionWidth;
                    canvasHeight = or_else (region_field downScaledHeight scanRegion) scanRegionHeight;
                    canvas = (if Num (of_nat (canvas_width canvas)) \<noteq> canvasWidth
                              then canvas\<lparr>canvas_width := set_size 300 canvasWidth\<rparr>
                              else canvas);
                    canvas = (if Num (of_nat (canvas_height canvas)) \<noteq> canvasHeight
                              then canvas\<lparr>canvas_height := set_size 150 canvasHeight\<rparr>
                              else canvas)
                in canvas)
             else canvas)
      in (canvas,
          \<lparr>sx = scanRegionX, sy = scanRegionY, sWidth = scanRegionWidth, sHeight = scanRegionHeight,
           dx = 0, dy = 0, dWidth = canvas_width canvas, dHeight = canvas_height canvas\<rparr>))"



section \<open>The decode request to a worker engine\<close>

text \<open>
  Values that are thrown or passed to \<open>reject\<close>: a string, or an \<open>Error\<close> object
  with its \<open>message\<close>.
\<close>

datatype js_error = ErrString string | ErrObject string

definition NO_QR_CODE_FOUND :: string where
  "NO_QR_CODE_FOUND = ''No QR code found''"

text \<open>
  \<open>getImageData(0, 0, canvas.width, canvas.height)\<close>, the decode buffer: it throws an
  \<open>IndexSizeError\<close> when a side of the rectangle is 0, and a \<open>SecurityError\<close> when
  the canvas is not origin-clean (an image of another origin has been drawn on it);
  otherwise the buffer has the size of the canvas. The exception is given by its name.
  The limits an implementation puts on the size of a buffer are left out.
\<close>

definition getImageData :: "bool \<Rightarrow> canvas \<Rightarrow> js_error + nat \<times> nat" where
  "getImageData origin_clean c =
     (if canvas_width c = 0 \<or> canvas_height c = 0 then Inl (ErrObject ''IndexSizeError'')
      else if \<not> origin_clean then Inl (ErrObject ''SecurityError'')
      else Inr (canvas_width c, canvas_height c))"

text \<open>
  The promise that \<open>scanImage\<close> builds around a worker: the two listeners it has
  registered on the worker, its pending timer, and the settlements of the promise that
  have been asked for so far, in order: the calls of \<open>resolve\<close> and \<open>reject\<close>, and
  the rejection by the constructor of the promise with what the executor has thrown. The
  promise takes the first of them.
\<close>

datatype settlement = Resolve string | Reject string | Threw js_error

record decode_request =
  messageListener :: bool
  errorListener :: bool
  timeout :: bool
  settlements :: "settlement list"

text \<open>
  The argument of \<open>onError\<close>: an \<open>ErrorEvent\<close> with its message, a string, or a
  falsy value other than the empty string.
\<close>

datatype error_arg = ErrorEvent string | ErrorText string | ErrorFalsy

text \<open>
  What the environment can deliver: a message of the worker (its \<open>type\<close> and its
  \<open>data\<close>, \<open>None\<close> for \<open>null\<close>), an error event of the worker, the expiry of the
  10 second timer.
\<close>

datatype worker_event =
    MessageEvent string "string option"
  | WorkerError error_arg
  | TimerExpires

text \<open>The state after the executor of the promise has run to its end.\<close>

definition request_posted :: decode_request where
  "request_posted =
     \<lparr>messageListener = True, errorListener = True, timeout = True, settlements = []\<rparr>"

text \<open>
  The executor of the promise: it registers both listeners and starts the timer, and only
  then reads the image data and posts it. When \<open>getImageData\<close> throws, the executor
  ends there: the promise is rejected with the exception, and both listeners and the timer
  stay as they are.
\<close>

definition executor :: "js_error + nat \<times> nat \<Rightarrow> decode_request" where
  "executor imageData =
     (let p = \<lparr>messageListener = True, errorListener = True, timeout = True, settlements = []\<rparr>
      in case imageData of
           Inl e \<Rightarrow> p\<lparr>settlements := settlements p @ [Threw e]\<rparr>
         | Inr pixels \<Rightarrow> p)"

definition onMessage :: "string \<Rightarrow> string option \<Rightarrow> decode_request \<Rightarrow> decode_request" where
  "onMessage type data p =
     (if type \<noteq> ''qrResult'' then p
      else
        (let p = p\<lparr>messageListener := False\<rparr>;
             p = p\<lparr>errorListener := False\<rparr>;
             p = p\<lparr>timeout := False\<rparr>
         in (case data of
               Some d \<Rightarrow> p\<lparr>settlements := settlements p @ [Resolve d]\<rparr>
             | None \<Rightarrow> p\<lparr>settlements := settlements p @ [Reject NO_QR_CODE_FOUND]\<rparr>)))"

text \<open>\<open>!error ? 'Unknown Error' : (error.message || error)\<close>, as it is concatenated.\<close>

definition errorMessage_of :: "error_arg \<Rightarrow> string" where
  "errorMessage_of error =
     (case error of
        ErrorFalsy \<Rightarrow> ''Unknown Error''
      | ErrorText s \<Rightarrow> (if s = [] then ''Unknown Error'' else s)
      | ErrorEvent m \<Rightarrow> (if m = [] then ''[object ErrorEvent]'' else m))"

definition onError :: "error_arg \<Rightarrow> decode_request \<Rightarrow> decode_request" where
  "onError error p =
     (let p = p\<lparr>messageListener := False\<rparr>;
          p = p\<lparr>errorListener := False\<rparr>;
          p = p\<lparr>timeout := False\<rparr>
      in p\<lparr>settlements := settlements p @ [Reject (''Scanner error: '' @ errorMessage_of error)]\<rparr>)"

text \<open>
  A listener that has been removed is not called, and a timer that has been cleared or
  has expired does not expire.
\<close>

fun deliver :: "worker_event \<Rightarrow> decode_request \<Rightarrow> decode_request" where
  "deliver (MessageEvent type data) p = (if messageListener p then onMessage type data p else p)"
| "deliver (WorkerError e) p = (if errorListener p then onError e p else p)"
| "deliver TimerExpires p =
     (if timeout p then onError (ErrorText ''timeout'') (p\<lparr>timeout := False\<rparr>) else p)"

text \<open>What the promise has settled as: the first settlement that was asked for.\<close>

definition settled_as :: "decode_request \<Rightarrow> settlement option" where
  "settled_as p = (case settlements p of [] \<Rightarrow> None | r # _ \<Rightarrow> Some r)"

definition deliver_all :: "worker_event list \<Rightarrow> decode_request \<Rightarrow> decode_request" where
  "deliver_all evs p = fold deliver evs p"

text \<open>An event that makes a request with both listeners and the timer settle.\<close>

fun settling :: "worker_event \<Rightarrow> bool" where
  "settling (MessageEvent type data) = (type = ''qrResult'')"
| "settling (WorkerError e) = True"
| "settling TimerExpires = True"

text \<open>
  The two states a request is in: nothing has happened yet, or it has settled once and
  has taken its listeners and its timer away.
\<close>

definition unsettled :: "decode_request \<Rightarrow> bool" where
  "unsettled p \<longleftrightarrow> messageListener p \<and> errorListener p \<and> timeout p \<and> settlements p = []"

definition settled_once :: "decode_request \<Rightarrow> bool" where
  "settled_once p \<longleftrightarrow>
     \<not> messageListener p \<and> \<not> errorListener p \<and> \<not> timeout p \<and> length (settlements p) = 1"

section \<open>Retrying without the scan region\<close>

text \<open>
  \<open>scanImage\<close>: the body of its \<open>try\<close> block (loading the image, getting the engine,
  rasterising, asking the engine) is one decode attempt; the environment decides the
  outcome of the \<open>n\<close>-th attempt of a call for the region it is given. The model returns
  the regions of the attempts made, in order, besides the result. The \<open>finally\<close> clause
  only posts \<open>close\<close> to an engine the call has created itself.
\<close>

type_synonym decode_attempt = "nat \<Rightarrow> scan_region option \<Rightarrow> js_error + string"

function scanImage ::
  "decode_attempt \<Rightarrow> nat \<Rightarrow> scan_region option \<Rightarrow> bool
     \<Rightarrow> (js_error + string) \<times> scan_region option list" where
  "scanImage attempt n scanRegion alsoTryWithoutScanRegion =
     (case attempt n scanRegion of
        Inr result \<Rightarrow> (Inr result, [scanRegion])
      | Inl e \<Rightarrow>
          (if scanRegion = None \<or> \<not> alsoTryWithoutScanRegion then (Inl e, [scanRegion])
           else
             (let (r, attempts) = scanImage attempt (Suc n) None False
              in (r, scanRegion # attempts))))"
  by pat_completeness auto
termination
  by (relation "measure (\<lambda>(attempt, n, scanRegion, alsoTry).
        if scanRegion \<noteq> None \<and> alsoTry then 1 else 0)") auto

section \<open>The scanner's life cycle\<close>

text \<open>
  The scanner is single-threaded and asynchronous: a method runs until it has to wait for
  the environment (a timer, a \<open>getUserMedia\<close> negotiation, \<open>video.play()\<close>,
  \<open>applyConstraints\<close>, an animation frame, a decode), and what remains of it runs when
  the environment answers. The model keeps what remains as a pending task; the
  environment chooses which pending task it answers next, and how. An event of the model
  is one turn of the event loop: a call or an answer, together with the continuations
  that need no further answer of the environment (the \<open>await\<close> of an \<open>async\<close>
  method that returns without waiting, the \<open>catch\<close> clause of \<open>start\<close> after an
  acquisition that fails without waiting), which run as microtasks before the next turn
  and are continued at once here. Calls that the caller makes one after the other within
  one turn, such as \<open>start(); pause(true)\<close>, run before those microtasks; such
  sequences are not among the events of the model, and no property below is about them.
  Warnings written to the console are left out. A callback of the caller is recorded as
  an effect; what the caller does in it is a later event.
\<close>

text \<open>
  \<open>$video.srcObject\<close>: \<open>null\<close>, a \<open>MediaStream\<close> (named by its number in the
  store of streams) or an object that is no \<open>MediaStream\<close>.
\<close>

datatype src_object = NoSrc | StreamSrc nat | OtherSrc

datatype task =
    PauseTimer
  | StartStream "constraints list"
  | StartPlay string
  | FlashStream "constraints list"
  | FlashApply
  | AnimationFrame
  | Decode

text \<open>
  What the scanner does to its environment, in order: the negotiations it opens, the
  callbacks it calls, what it logs, the messages it posts, the promises of its methods
  that reject, and the value a \<open>pause\<close> resolves with.
\<close>

datatype effect =
    GetUserMedia constraints
  | OnDecode string
  | OnDecodeError js_error
  | ConsoleLog js_error
  | PostClose
  | CreateQrEngine
  | ScanImage
  | ApplyTorch nat
  | PauseResolved bool
  | Rejected js_error

record scanner =
  active :: bool
  paused :: bool
  flashOn :: bool
  destroyed :: bool
  preferredCamera :: string
  customErrorHandler :: bool
  srcObject :: src_object
  video_paused :: bool
  video_ended :: bool
  readyState :: nat
  scaleX :: int
  listening :: bool
  hidden :: bool
  mediaDevices :: bool
  streams :: "nat \<Rightarrow> track list"
  next_stream :: nat
  ended :: "nat set"
  pending :: "task list"
  effects :: "effect list"

text \<open>
  The fields \<open>active\<close>, \<open>paused\<close>, \<open>flashOn\<close>, \<open>destroyed\<close> and
  \<open>preferredCamera\<close> are the private fields of the class; \<open>customErrorHandler\<close>
  says whether the constructor got an \<open>onDecodeError\<close>; \<open>srcObject\<close>,
  \<open>video_paused\<close>, \<open>video_ended\<close>, \<open>readyState\<close> and \<open>scaleX\<close> (the factor in
  \<open>style.transform\<close>) belong to \<open>$video\<close>; \<open>listening\<close> says whether the three
  event listeners of the constructor are registered; \<open>hidden\<close> is
  \<open>document.hidden\<close>; \<open>mediaDevices\<close> says whether \<open>navigator.mediaDevices\<close>
  exists. \<open>streams\<close> gives the tracks each stream object holds now, \<open>ended\<close> the
  tracks that \<open>stop()\<close> has been called on.
\<close>

definition log :: "effect \<Rightarrow> scanner \<Rightarrow> scanner" where
  "log e s = s\<lparr>effects := effects s @ [e]\<rparr>"

definition schedule :: "task \<Rightarrow> scanner \<Rightarrow> scanner" where
  "schedule t s = s\<lparr>pending := pending s @ [t]\<rparr>"

text \<open>The scanner as the constructor leaves it, for a video element with no source.\<close>

definition constructor :: "string \<Rightarrow> bool \<Rightarrow> bool \<Rightarrow> bool \<Rightarrow> scanner" where
  "constructor preferred custom has_mediaDevices is_hidden =
     \<lparr>active = False, paused = False, flashOn = False, destroyed = False,
      preferredCamera = preferred, customErrorHandler = custom,
      srcObject = NoSrc, video_paused = True, video_ended = False, readyState = 0,
      scaleX = 1, listening = True, hidden = is_hidden, mediaDevices = has_mediaDevices,
      streams = (\<lambda>_. []), next_stream = 0, ended = {}, pending = [], effects = []\<rparr>"

subsection \<open>Releasing a stream\<close>

definition removeTrack :: "track \<Rightarrow> track list \<Rightarrow> track list" where
  "removeTrack t stream = filter (\<lambda>u. tid u \<noteq> tid t) stream"

text \<open>One round of the loop of \<open>_stopVideoStream\<close>.\<close>

definition stopTrack :: "nat \<Rightarrow> track \<Rightarrow> scanner \<Rightarrow> scanner" where
  "stopTrack sid t s =
     s\<lparr>ended := insert (tid t) (ended s),
       streams := (streams s)(sid := removeTrack t (streams s sid))\<rparr>"

definition stopVideoStream :: "nat \<Rightarrow> scanner \<Rightarrow> scanner" where
  "stopVideoStream sid s = fold (stopTrack sid) (streams s sid) s"

text \<open>The closure \<open>stopStream\<close> of \<open>pause\<close>.\<close>

definition stopStream :: "scanner \<Rightarrow> scanner" where
  "stopStream s =
     (case srcObject s of
        StreamSrc sid \<Rightarrow> (stopVideoStream sid s)\<lparr>srcObject := NoSrc\<rparr>
      | _ \<Rightarrow> s)"

subsection \<open>pause, start and the acquisition they wait for\<close>

text \<open>
  \<open>pause\<close> up to its \<open>await\<close>: the value it resolves with if it does not wait, and
  the state. When it waits, the timer of 300 ms is pending.
\<close>

definition pause :: "bool \<Rightarrow> scanner \<Rightarrow> bool option \<times> scanner" where
  "pause stopStreamImmediately s0 =
     (let s = s0\<lparr>paused := True\<rparr> in
      if \<not> active s then (Some True, s)
      else
        (let s = s\<lparr>video_paused := True\<rparr> in
         if stopStreamImmediately then (Some True, stopStream s)
         else (None, schedule PauseTimer s)))"

text \<open>\<open>pause\<close> after the timer.\<close>

definition pause_expired :: "scanner \<Rightarrow> scanner" where
  "pause_expired s =
     (if \<not> paused s then log (PauseResolved False) s
      else log (PauseResolved True) (stopStream s))"

text \<open>
  Opening the negotiation for the first constraint set of a list; \<open>None\<close> when the list
  is empty, where the loop of \<open>_getCameraStream\<close> ends and \<open>'Camera not found.'\<close> is
  thrown.
\<close>

definition negotiate ::
  "(constraints list \<Rightarrow> task) \<Rightarrow> constraints list \<Rightarrow> scanner \<Rightarrow> scanner option" where
  "negotiate waiting cs s =
     (case cs of
        [] \<Rightarrow> None
      | c # _ \<Rightarrow> Some (schedule (waiting cs) (log (GetUserMedia c) s)))"

definition camera_not_found :: js_error where
  "camera_not_found = ErrString ''Camera not found.''"

text \<open>The \<open>catch\<close> clause of \<open>start\<close>.\<close>

definition start_failed :: "js_error \<Rightarrow> scanner \<Rightarrow> scanner" where
  "start_failed e s = (if paused s then s else log (Rejected e) (s\<lparr>active := False\<rparr>))"

definition start :: "scanner \<Rightarrow> scanner" where
  "start s0 =
     (if (active s0 \<and> \<not> paused s0) \<or> destroyed s0 then s0
      else
        (let s = s0\<lparr>active := True\<rparr> in
         if hidden s then s
         else
           (let s = s\<lparr>paused := False\<rparr> in
            if srcObject s \<noteq> NoSrc then s\<lparr>video_paused := False\<rparr>
            else if \<not> mediaDevices s then start_failed camera_not_found s
            else
              (case negotiate StartStream (constraintSets (preferredCamera s)) s of
                 Some s' \<Rightarrow> s'
               | None \<Rightarrow> start_failed camera_not_found s))))"

text \<open>\<open>start\<close> after \<open>_getCameraStream\<close> has returned a stream.\<close>

definition start_acquired :: "nat \<Rightarrow> string \<Rightarrow> scanner \<Rightarrow> scanner" where
  "start_acquired sid facingMode s =
     (if \<not> active s \<or> paused s then stopVideoStream sid s
      else schedule (StartPlay facingMode) (s\<lparr>srcObject := StreamSrc sid, video_paused := False\<rparr>))"

definition setVideoMirror :: "string \<Rightarrow> scanner \<Rightarrow> scanner" where
  "setVideoMirror facingMode s = s\<lparr>scaleX := (if facingMode = ''user'' then - 1 else 1)\<rparr>"

subsection \<open>The flash\<close>

text \<open>\<open>'torch' in stream.getVideoTracks()[0].getSettings()\<close>, \<open>false\<close> when it throws.\<close>

definition torchSupported :: "media_stream \<Rightarrow> bool" where
  "torchSupported stream = (case getVideoTracks stream of [] \<Rightarrow> False | t # _ \<Rightarrow> torch t)"

definition type_error :: js_error where
  "type_error = ErrObject ''TypeError''"

text \<open>The \<open>catch\<close> clause of \<open>turnFlashOn\<close>.\<close>

definition flash_failed :: "js_error \<Rightarrow> scanner \<Rightarrow> scanner" where
  "flash_failed e s = log (Rejected e) (s\<lparr>flashOn := False\<rparr>)"

text \<open>\<open>turnFlashOn\<close> from the answer of \<open>hasFlash\<close> on.\<close>

definition flash_checked :: "bool \<Rightarrow> scanner \<Rightarrow> scanner" where
  "flash_checked has s =
     (if \<not> has then flash_failed (ErrString ''No flash available'') s
      else
        (case srcObject s of
           StreamSrc sid \<Rightarrow>
             (case getVideoTracks (streams s sid) of
                [] \<Rightarrow> flash_failed type_error s
              | t # _ \<Rightarrow> schedule FlashApply (log (ApplyTorch (tid t)) s))
         | _ \<Rightarrow> flash_failed type_error s))"

definition turnFlashOn :: "scanner \<Rightarrow> scanner" where
  "turnFlashOn s0 =
     (if flashOn s0 \<or> destroyed s0 then s0
      else
        (let s = s0\<lparr>flashOn := True\<rparr> in
         if \<not> active s \<or> paused s then s
         else
           (case srcObject s of
              OtherSrc \<Rightarrow> flash_checked False s
            | StreamSrc sid \<Rightarrow> flash_checked (torchSupported (streams s sid)) s
            | NoSrc \<Rightarrow>
                (if \<not> mediaDevices s then flash_checked False s
                 else
                   (case negotiate FlashStream (constraintSets (preferredCamera s)) s of
                      Some s' \<Rightarrow> s'
                    | None \<Rightarrow> flash_checked False s)))))"

text \<open>\<open>start\<close> after the \<open>play()\<close> that follows the acquisition.\<close>

definition start_played :: "string \<Rightarrow> scanner \<Rightarrow> scanner" where
  "start_played facingMode s0 =
     (let s = setVideoMirror facingMode s0 in
      if flashOn s then turnFlashOn (s\<lparr>flashOn := False\<rparr>) else s)"

text \<open>
  \<open>_restartVideoStream\<close>. Its \<open>pause(true)\<close> never waits, so the second branch of
  the case below is never taken.
\<close>

definition restartVideoStream :: "scanner \<Rightarrow> scanner" where
  "restartVideoStream s =
     (let wasPaused = paused s in
      case pause True s of
        (Some paused', s') \<Rightarrow> (if \<not> paused' \<or> wasPaused \<or> \<not> active s' then s' else start s')
      | (None, s') \<Rightarrow> s')"

definition turnFlashOff :: "scanner \<Rightarrow> scanner" where
  "turnFlashOff s = (if \<not> flashOn s then s else restartVideoStream (s\<lparr>flashOn := False\<rparr>))"

definition toggleFlash :: "scanner \<Rightarrow> scanner" where
  "toggleFlash s = (if flashOn s then turnFlashOff s else turnFlashOn s)"

subsection \<open>stop, destroy, setCamera and the listeners\<close>

definition stop :: "scanner \<Rightarrow> scanner" where
  "stop s = (snd (pause False s))\<lparr>active := False\<rparr>"

definition destroy :: "scanner \<Rightarrow> scanner" where
  "destroy s0 =
     (let s = s0\<lparr>listening := False\<rparr>;
          s = s\<lparr>destroyed := True\<rparr>;
          s = s\<lparr>flashOn := False\<rparr>;
          s = stop s
      in log PostClose s)"

definition setCamera :: "string \<Rightarrow> scanner \<Rightarrow> scanner" where
  "setCamera facingModeOrDeviceId s =
     (if facingModeOrDeviceId = preferredCamera s then s
      else restartVideoStream (s\<lparr>preferredCamera := facingModeOrDeviceId\<rparr>))"

definition onVisibilityChange :: "scanner \<Rightarrow> scanner" where
  "onVisibilityChange s =
     (if hidden s then snd (pause False s)
      else if active s then start s
      else s)"

subsection \<open>The scan loop\<close>

definition scanFrame :: "scanner \<Rightarrow> scanner" where
  "scanFrame s =
     (if \<not> active s \<or> video_paused s \<or> video_ended s then s else schedule AnimationFrame s)"

definition onPlay :: "scanner \<Rightarrow> scanner" where
  "onPlay s = scanFrame s"

text \<open>The default \<open>_onDecodeError\<close>, or the handler the constructor was given.\<close>

definition onDecodeError :: "js_error \<Rightarrow> scanner \<Rightarrow> scanner" where
  "onDecodeError error s =
     (if customErrorHandler s then log (OnDecodeError error) s
      else if error = ErrString NO_QR_CODE_FOUND then s
      else log (ConsoleLog error) s)"

text \<open>
  \<open>(error as Error).message || error as string\<close>: \<open>None\<close> when the value is an
  object, on which \<open>includes\<close> is no function.
\<close>

definition errorMessage :: "js_error \<Rightarrow> string option" where
  "errorMessage error =
     (case error of
        ErrString s \<Rightarrow> Some s
      | ErrObject m \<Rightarrow> (if m = [] then None else Some m))"

text \<open>The callback of \<open>requestAnimationFrame\<close> up to its \<open>await\<close>.\<close>

definition animationFrame :: "scanner \<Rightarrow> scanner" where
  "animationFrame s =
     (if readyState s \<le> 1 then scanFrame s
      else schedule Decode (log ScanImage s))"

text \<open>
  The callback after \<open>scanImage\<close> has settled, with the rejection (\<open>Inl\<close>) or the
  result (\<open>Inr\<close>).
\<close>

definition decode_settled :: "js_error + string \<Rightarrow> scanner \<Rightarrow> scanner" where
  "decode_settled r s =
     (case r of
        Inl error \<Rightarrow>
          (if \<not> active s then s
           else
             (case errorMessage error of
                None \<Rightarrow> s
              | Some m \<Rightarrow>
                  (let s = (if str_includes m ''service unavailable''
                            then log CreateQrEngine s else s);
                       s = onDecodeError error s
                   in scanFrame s)))
      | Inr result \<Rightarrow>
          (let s = (if result \<noteq> [] then log (OnDecode result) s else s)
           in scanFrame s))"

subsection \<open>Events\<close>

datatype outcome =
    Expired
  | GumResolved "track list"
  | GumRejected
  | PlayResolved
  | PlayRejected js_error
  | ApplyResolved
  | ApplyRejected js_error
  | Tick
  | DecodeSettled "js_error + string"

text \<open>A stream that \<open>getUserMedia\<close> resolves with is a new object in the store.\<close>

definition new_stream :: "track list \<Rightarrow> scanner \<Rightarrow> scanner" where
  "new_stream tracks s =
     s\<lparr>streams := (streams s)(next_stream s := tracks), next_stream := Suc (next_stream s)\<rparr>"

text \<open>
  What remains of a method when the environment answers; \<open>None\<close> when the answer is
  none that the task waits for.
\<close>

definition resume :: "task \<Rightarrow> outcome \<Rightarrow> scanner \<Rightarrow> scanner option" where
  "resume t out s =
     (case t of
        PauseTimer \<Rightarrow>
          (case out of Expired \<Rightarrow> Some (pause_expired s) | _ \<Rightarrow> None)
      | StartStream remaining \<Rightarrow>
          (case remaining of
             [] \<Rightarrow> None
           | c # cs \<Rightarrow>
               (case out of
                  GumResolved tracks \<Rightarrow>
                    Some (start_acquired (next_stream s)
                            (facingModeOf (preferredCamera s) c tracks) (new_stream tracks s))
                | GumRejected \<Rightarrow>
                    Some (case negotiate StartStream cs s of
                            Some s' \<Rightarrow> s'
                          | None \<Rightarrow> start_failed camera_not_found s)
                | _ \<Rightarrow> None))
      | StartPlay facingMode \<Rightarrow>
          (case out of
             PlayResolved \<Rightarrow> Some (start_played facingMode s)
           | PlayRejected e \<Rightarrow> Some (start_failed e s)
           | _ \<Rightarrow> None)
      | FlashStream remaining \<Rightarrow>
          (case remaining of
             [] \<Rightarrow> None
           | c # cs \<Rightarrow>
               (case out of
                  GumResolved tracks \<Rightarrow>
                    Some (flash_checked (torchSupported tracks)
                            (stopVideoStream (next_stream s) (new_stream tracks s)))
                | GumRejected \<Rightarrow>
                    Some (case negotiate FlashStream cs s of
                            Some s' \<Rightarrow> s'
                          | None \<Rightarrow> flash_checked False s)
                | _ \<Rightarrow> None))
      | FlashApply \<Rightarrow>
          (case out of
             ApplyResolved \<Rightarrow> Some s
           | ApplyRejected e \<Rightarrow> Some (flash_failed e s)
           | _ \<Rightarrow> None)
      | AnimationFrame \<Rightarrow>
          (case out of Tick \<Rightarrow> Some (animationFrame s) | _ \<Rightarrow> None)
      | Decode \<Rightarrow>
          (case out of DecodeSettled r \<Rightarrow> Some (decode_settled r s) | _ \<Rightarrow> None))"

datatype call =
    Start
  | Stop
  | Pause bool
  | Destroy
  | SetCamera string
  | TurnFlashOn
  | TurnFlashOff
  | ToggleFlash

fun invoke :: "call \<Rightarrow> scanner \<Rightarrow> scanner" where
  "invoke Start s = start s"
| "invoke Stop s = stop s"
| "invoke (Pause stopStreamImmediately) s =
     (case pause stopStreamImmediately s of
        (Some r, s') \<Rightarrow> log (PauseResolved r) s'
      | (None, s') \<Rightarrow> s')"
| "invoke Destroy s = destroy s"
| "invoke (SetCamera c) s = setCamera c s"
| "invoke TurnFlashOn s = turnFlashOn s"
| "invoke TurnFlashOff s = turnFlashOff s"
| "invoke ToggleFlash s = toggleFlash s"

text \<open>
  An event: a call of a public method; the answer of the environment to the pending task
  at a position; a change of \<open>document.hidden\<close> with its \<open>visibilitychange\<close> event;
  the \<open>play\<close> event of the video; a change of the video's \<open>readyState\<close> and
  \<open>ended\<close>.
\<close>

datatype event =
    Call call
  | Completes nat outcome
  | VisibilityChange bool
  | PlayEvent
  | VideoState nat bool

fun step :: "event \<Rightarrow> scanner \<Rightarrow> scanner" where
  "step (Call c) s = invoke c s"
| "step (Completes i out) s =
     (if i < length (pending s)
      then (case resume (pending s ! i) out
                   (s\<lparr>pending := take i (pending s) @ drop (Suc i) (pending s)\<rparr>) of
              Some s' \<Rightarrow> s'
            | None \<Rightarrow> s)
      else s)"
| "step (VisibilityChange h) s =
     (let s = s\<lparr>hidden := h\<rparr> in if listening s then onVisibilityChange s else s)"
| "step PlayEvent s = (if listening s then onPlay s else s)"
| "step (VideoState rs e) s = s\<lparr>readyState := rs, video_ended := e\<rparr>"

definition run :: "event list \<Rightarrow> scanner \<Rightarrow> scanner" where
  "run evs s = fold step evs s"

text \<open>
  The events by which an environment that negotiates as \<open>getUserMedia\<close> does answers
  an acquisition whose task is the last pending one, at \<open>position\<close>, from its
  \<open>i\<close>-th negotiation on: a rejection for every constraint set up to the first that
  succeeds.
\<close>

definition answer :: "user_media \<Rightarrow> nat \<Rightarrow> constraints \<Rightarrow> outcome" where
  "answer getUserMedia i c =
     (case getUserMedia i c of Some stream \<Rightarrow> GumResolved stream | None \<Rightarrow> GumRejected)"

fun answers :: "user_media \<Rightarrow> nat \<Rightarrow> nat \<Rightarrow> constraints list \<Rightarrow> event list" where
  "answers getUserMedia position i [] = []"
| "answers getUserMedia position i (c # cs) =
     Completes position (answer getUserMedia i c)
       # (case getUserMedia i c of
            Some stream \<Rightarrow> []
          | None \<Rightarrow> answers getUserMedia position (Suc i) cs)"

subsection \<open>A scanner that is scanning\<close>

text \<open>
  A camera with one video track that supports the torch and whose label names no side,
  and the scanner after \<open>start()\<close> has acquired this camera in the first negotiation
  and the video plays.
\<close>

definition rear_camera :: "track list" where
  "rear_camera = [\<lparr>tid = 0, kind = Video, label = ''cam'', torch = True\<rparr>]"

definition scanning :: scanner where
  "scanning =
     run [Call Start, Completes 0 (GumResolved rear_camera), Completes 0 PlayResolved]
       (constructor ''environment'' False True False)"

subsection \<open>The destroyed scanner and the callbacks\<close>

text \<open>What \<open>destroy\<close> leaves of the fields that the public methods test.\<close>

definition terminal :: "scanner \<Rightarrow> bool" where
  "terminal s \<longleftrightarrow> destroyed s \<and> \<not> active s \<and> paused s \<and> \<not> flashOn s \<and> \<not> listening s"

text \<open>The effects that are calls of the caller's callbacks or of the default handler's log.\<close>

definition callback :: "effect \<Rightarrow> bool" where
  "callback e =
     (case e of OnDecode _ \<Rightarrow> True | OnDecodeError _ \<Rightarrow> True | ConsoleLog _ \<Rightarrow> True | _ \<Rightarrow> False)"

definition callbacks :: "scanner \<Rightarrow> effect list" where
  "callbacks s = filter callback (effects s)"

text \<open>
  What \<open>await scanImage(...)\<close> gives the scan loop for a settled request on a worker:
  the scan loop passes no \<open>alsoTryWithoutScanRegion\<close>, so a rejection is thrown on.
\<close>

definition awaited :: "settlement \<Rightarrow> js_error + string" where
  "awaited r =
     (case r of Resolve d \<Rightarrow> Inr d | Reject m \<Rightarrow> Inl (ErrString m) | Threw e \<Rightarrow> Inl e)"

section \<open>Properties of camera acquisition\<close>

lemma tryConstraints_all_fail:
  "(\<forall>k<length cs. g (i + k) (cs ! k) = None) \<Longrightarrow>
     tryConstraints g now i cs = (Inl CameraNotFound, cs)"
proof (induction cs arbitrary: i)
  case Nil
  then show ?case by simp
next
  case (Cons c cs)
  from Cons.prems have h0: "g i c = None" and h: "\<forall>k<length cs. g (Suc i + k) (cs ! k) = None"
    by (simp_all add: All_less_Suc2)
  from h have "tryConstraints g now (Suc i) cs = (Inl CameraNotFound, cs)" by (rule Cons.IH)
  with h0 show ?case by simp
qed

lemma tryConstraints_first_success:
  "k < length cs \<Longrightarrow> (\<forall>j<k. g (i + j) (cs ! j) = None) \<Longrightarrow> g (i + k) (cs ! k) = Some st \<Longrightarrow>
     tryConstraints g now i cs = (Inr (st, facingModeOf (now (i + k)) (cs ! k) st), take (Suc k) cs)"
proof (induction cs arbitrary: i k)
  case Nil
  then show ?case by simp
next
  case (Cons c cs)
  show ?case
  proof (cases k)
    case 0
    with Cons.prems show ?thesis by simp
  next
    case (Suc k')
    from Cons.prems(2) Suc have h0: "g i c = None"
      and b: "\<forall>j<k'. g (Suc i + j) (cs ! j) = None"
      by (simp_all add: All_less_Suc2)
    have a: "k' < length cs" using Cons.prems(1) Suc by simp
    have c: "g (Suc i + k') (cs ! k') = Some st" using Cons.prems(3) Suc by simp
    from Cons.IH[OF a b c] h0 Suc show ?thesis by simp
  qed
qed

lemma tryConstraints_error_iff:
  "fst (tryConstraints g now i cs) = Inl CameraNotFound
     \<longleftrightarrow> (\<forall>k<length cs. g (i + k) (cs ! k) = None)"
proof (induction cs arbitrary: i)
  case Nil
  then show ?case by simp
next
  case (Cons c cs)
  show ?case
  proof (cases "g i c")
    case None
    then have "fst (tryConstraints g now i (c # cs)) = fst (tryConstraints g now (Suc i) cs)"
      by (simp add: split_beta)
    with None Cons.IH[of "Suc i"] show ?thesis by (simp add: All_less_Suc2)
  next
    case (Some st)
    then show ?thesis by (simp add: All_less_Suc2)
  qed
qed

lemma constraintSets_length: "length (constraintSets pref) = 6"
  by (simp add: constraintSets_def constraintsWithCamera_def constraintsWithoutCamera_def)


lemma constraintSets_explicit:
  "constraintSets p =
     (case preferenceType p of
        FacingModePref \<Rightarrow>
          [\<lparr>width_min = Some 1024, facingMode_exact = Some p, deviceId_exact = None\<rparr>,
           \<lparr>width_min = Some 768, facingMode_exact = Some p, deviceId_exact = None\<rparr>,
           \<lparr>width_min = None, facingMode_exact = Some p, deviceId_exact = None\<rparr>]
      | DeviceIdPref \<Rightarrow>
          [\<lparr>width_min = Some 1024, facingMode_exact = None, deviceId_exact = Some p\<rparr>,
           \<lparr>width_min = Some 768, facingMode_exact = None, deviceId_exact = Some p\<rparr>,
           \<lparr>width_min = None, facingMode_exact = None, deviceId_exact = Some p\<rparr>])
     @ [\<lparr>width_min = Some 1024, facingMode_exact = None, deviceId_exact = None\<rparr>,
        \<lparr>width_min = Some 768, facingMode_exact = None, deviceId_exact = None\<rparr>,
        \<lparr>width_min = None, facingMode_exact = None, deviceId_exact = None\<rparr>]"
  by (simp add: constraintSets_def constraintsWithCamera_def constraintsWithoutCamera_def
      split: preference_type.split)

lemma less_6_cases: "k < (6::nat) \<Longrightarrow> k = 0 \<or> k = 1 \<or> k = 2 \<or> k = 3 \<or> k = 4 \<or> k = 5"
  by arith

lemma constraintSets_facing:
  "k < 6 \<Longrightarrow> facingMode_exact (constraintSets p ! k) =
     (if k < 3 \<and> (p = ''environment'' \<or> p = ''user'') then Some p else None)"
  by (drule less_6_cases)
     (auto simp: constraintSets_explicit preferenceType_def nth_Cons' nth_append)

lemma constraintSets_device:
  "k < 6 \<Longrightarrow> deviceId_exact (constraintSets p ! k) =
     (if k < 3 \<and> \<not> (p = ''environment'' \<or> p = ''user'') then Some p else None)"
  by (drule less_6_cases)
     (auto simp: constraintSets_explicit preferenceType_def nth_Cons' nth_append)

lemma constraintSets_width:
  "map width_min (constraintSets p) = [Some 1024, Some 768, None, Some 1024, Some 768, None]"
  by (simp add: constraintSets_explicit split: preference_type.split)

text \<open>
  C1. Camera acquisition negotiates, in this order, the three resolution tiers (minimum
  width 1024, minimum width 768, no width constraint) together with the exact preference
  (a facing mode when the preference is \<open>'environment'\<close> or \<open>'user'\<close>, a device id
  otherwise), then the same three tiers without any preference. A rejected negotiation
  is swallowed and the next constraint set is tried; the first negotiation that succeeds
  yields its stream and ends the loop; \<open>'Camera not found.'\<close> is raised exactly when
  the media devices are absent or all six negotiations are rejected.
\<close>

theorem getCameraStream_fallback:
  "map width_min (constraintSets p) = [Some 1024, Some 768, None, Some 1024, Some 768, None]
   \<and> (\<forall>k<6. facingMode_exact (constraintSets p ! k) =
          (if k < 3 \<and> (p = ''environment'' \<or> p = ''user'') then Some p else None)
        \<and> deviceId_exact (constraintSets p ! k) =
          (if k < 3 \<and> \<not> (p = ''environment'' \<or> p = ''user'') then Some p else None))
   \<and> getCameraStream None p now = (Inl CameraNotFound, [])
   \<and> (fst (getCameraStream (Some g) p now) = Inl CameraNotFound
        \<longleftrightarrow> (\<forall>k<6. g k (constraintSets p ! k) = None))
   \<and> ((\<forall>k<6. g k (constraintSets p ! k) = None)
        \<longrightarrow> snd (getCameraStream (Some g) p now) = constraintSets p)
   \<and> (k < 6 \<and> (\<forall>j<k. g j (constraintSets p ! j) = None) \<and> g k (constraintSets p ! k) = Some st
        \<longrightarrow> (\<exists>m. fst (getCameraStream (Some g) p now) = Inr (st, m))
          \<and> snd (getCameraStream (Some g) p now) = take (Suc k) (constraintSets p))"
proof (intro conjI)
  show "map width_min (constraintSets p) = [Some 1024, Some 768, None, Some 1024, Some 768, None]"
    by (rule constraintSets_width)
  show "\<forall>k<6. facingMode_exact (constraintSets p ! k) =
          (if k < 3 \<and> (p = ''environment'' \<or> p = ''user'') then Some p else None)
        \<and> deviceId_exact (constraintSets p ! k) =
          (if k < 3 \<and> \<not> (p = ''environment'' \<or> p = ''user'') then Some p else None)"
    using constraintSets_facing constraintSets_device by blast
  show "getCameraStream None p now = (Inl CameraNotFound, [])"
    by (simp add: getCameraStream_def)
  show "fst (getCameraStream (Some g) p now) = Inl CameraNotFound
        \<longleftrightarrow> (\<forall>k<6. g k (constraintSets p ! k) = None)"
    using tryConstraints_error_iff[of g now 0 "constraintSets p"]
    by (simp add: getCameraStream_def constraintSets_length)
  show "(\<forall>k<6. g k (constraintSets p ! k) = None)
        \<longrightarrow> snd (getCameraStream (Some g) p now) = constraintSets p"
    using tryConstraints_all_fail[of "constraintSets p" g 0 now]
    by (simp add: getCameraStream_def constraintSets_length)
  show "k < 6 \<and> (\<forall>j<k. g j (constraintSets p ! j) = None) \<and> g k (constraintSets p ! k) = Some st
        \<longrightarrow> (\<exists>m. fst (getCameraStream (Some g) p now) = Inr (st, m))
          \<and> snd (getCameraStream (Some g) p now) = take (Suc k) (constraintSets p)"
    using tryConstraints_first_success[of k "constraintSets p" g 0 st now]
    by (simp add: getCameraStream_def constraintSets_length)
qed

lemma getFacingMode_cam: "getFacingMode [\<lparr>tid = 0, kind = Video, label = ''cam'', torch = False\<rparr>] = None"
  by code_simp

theorem getCameraStream_fallback_witness:
  "fst (getCameraStream
          (Some (\<lambda>i c. if i = 4 then Some [\<lparr>tid = 0, kind = Video, label = ''cam'', torch = False\<rparr>]
                        else None)) ''user'' (\<lambda>i. ''user''))
     = Inr ([\<lparr>tid = 0, kind = Video, label = ''cam'', torch = False\<rparr>], ''environment'')
   \<and> snd (getCameraStream
          (Some (\<lambda>i c. if i = 4 then Some [\<lparr>tid = 0, kind = Video, label = ''cam'', torch = False\<rparr>]
                        else None)) ''user'' (\<lambda>i. ''user''))
     = [\<lparr>width_min = Some 1024, facingMode_exact = Some ''user'', deviceId_exact = None\<rparr>,
        \<lparr>width_min = Some 768, facingMode_exact = Some ''user'', deviceId_exact = None\<rparr>,
        \<lparr>width_min = None, facingMode_exact = Some ''user'', deviceId_exact = None\<rparr>,
        \<lparr>width_min = Some 1024, facingMode_exact = None, deviceId_exact = None\<rparr>,
        \<lparr>width_min = Some 768, facingMode_exact = None, deviceId_exact = None\<rparr>]"
  using getCameraStream_fallback
    [where p = "''user''"
       and now = "\<lambda>i. ''user''"
       and g = "\<lambda>i c. if i = 4 then Some [\<lparr>tid = 0, kind = Video, label = ''cam'', torch = False\<rparr>]
                       else None"
       and k = 4
       and st = "[\<lparr>tid = 0, kind = Video, label = ''cam'', torch = False\<rparr>]"]
  by (simp add: getCameraStream_def constraintSets_explicit preferenceType_def facingModeOf_def
      getFacingMode_cam)


lemma startsWith_iff: "startsWith s p \<longleftrightarrow> (\<exists>v. s = p @ v)"
  by (induction s p rule: startsWith.induct) auto

lemma str_includes_iff: "str_includes s p \<longleftrightarrow> (\<exists>u v. s = u @ p @ v)"
proof (induction s)
  case Nil
  then show ?case by simp
next
  case (Cons c cs)
  show ?case
  proof
    assume "str_includes (c # cs) p"
    then consider "startsWith (c # cs) p" | "str_includes cs p" by auto
    then show "\<exists>u v. c # cs = u @ p @ v"
    proof cases
      case 1
      then obtain v where "c # cs = p @ v" using startsWith_iff by blast
      then have "c # cs = [] @ p @ v" by simp
      then show ?thesis by blast
    next
      case 2
      then obtain u v where "cs = u @ p @ v" using Cons.IH by blast
      then have "c # cs = (c # u) @ p @ v" by simp
      then show ?thesis by blast
    qed
  next
    assume "\<exists>u v. c # cs = u @ p @ v"
    then obtain u v where uv: "c # cs = u @ p @ v" by blast
    show "str_includes (c # cs) p"
    proof (cases u)
      case Nil
      with uv have "startsWith (c # cs) p" using startsWith_iff by auto
      then show ?thesis by simp
    next
      case (Cons d u')
      with uv have "cs = u' @ p @ v" by simp
      then have "str_includes cs p" using Cons.IH by blast
      then show ?thesis by simp
    qed
  qed
qed

lemma getFacingMode_range:
  "getFacingMode st = None \<or> getFacingMode st = Some ''environment'' \<or> getFacingMode st = Some ''user''"
  by (simp add: getFacingMode_def split: list.split)

text \<open>
  The facing side that is reported with the stream of the first negotiation that
  succeeds: the side the label names; else, when the constraint set carried a facing
  mode, the preference of the moment at which the negotiation resolves; else the side
  opposite to that preference when it is \<open>'environment'\<close>, and \<open>'environment'\<close>
  otherwise.
\<close>

lemma facing_mode_of_stream:
  assumes "k < 6" and "\<forall>j<k. g j (constraintSets p ! j) = None"
    and "g k (constraintSets p ! k) = Some st"
  shows "fst (getCameraStream (Some g) p now) =
           Inr (st, (case getFacingMode st of
                       Some m \<Rightarrow> m
                     | None \<Rightarrow>
                         if k < 3 \<and> (p = ''environment'' \<or> p = ''user'') then now k
                         else if now k = ''environment'' then ''user''
                         else ''environment''))"
proof -
  have "tryConstraints g now 0 (constraintSets p) =
      (Inr (st, facingModeOf (now k) (constraintSets p ! k) st), take (Suc k) (constraintSets p))"
    using assms tryConstraints_first_success[of k "constraintSets p" g 0 st now]
    by (simp add: constraintSets_length)
  moreover have "facingMode_exact (constraintSets p ! k) =
      (if k < 3 \<and> (p = ''environment'' \<or> p = ''user'') then Some p else None)"
    using assms(1) by (rule constraintSets_facing)
  ultimately show ?thesis
    by (auto simp add: getCameraStream_def facingModeOf_def split: option.split)
qed

text \<open>
  What the code keeps of C6: as long as the preference is not assigned while the
  negotiation that succeeds is pending, the facing side is the side the label names,
  else the requested side if the constraint set carried the facing mode, else the side
  opposite to the requested one, else \<open>'environment'\<close>; and a request for \<open>'user'\<close>
  that only an unconstrained tier can fulfil, with a stream whose label does not name the
  front side, reports \<open>'environment'\<close>.
\<close>

lemma facing_mode_unchanged_preference:
  assumes "now k = p" and "k < 6" and "\<forall>j<k. g j (constraintSets p ! j) = None"
    and "g k (constraintSets p ! k) = Some st"
  shows "fst (getCameraStream (Some g) p now) =
           Inr (st, (case getFacingMode st of
                       Some m \<Rightarrow> m
                     | None \<Rightarrow>
                         if k < 3 \<and> (p = ''environment'' \<or> p = ''user'') then p
                         else if p = ''environment'' then ''user''
                         else if p = ''user'' then ''environment''
                         else ''environment''))"
proof -
  have "fst (getCameraStream (Some g) p now) =
           Inr (st, (case getFacingMode st of
                       Some m \<Rightarrow> m
                     | None \<Rightarrow>
                         if k < 3 \<and> (p = ''environment'' \<or> p = ''user'') then now k
                         else if now k = ''environment'' then ''user''
                         else ''environment''))"
    using assms(2,3,4) by (rule facing_mode_of_stream)
  with assms(1) show ?thesis by (auto split: option.split)
qed

lemma getFacingMode_environment_iff:
  "getFacingMode st = Some ''environment'' \<longleftrightarrow>
     (\<exists>t ts. getVideoTracks st = t # ts
        \<and> (\<exists>w \<in> {''rear'', ''back'', ''environment''}. \<exists>u v. map toLowerCase (label t) = u @ w @ v))"
  by (cases "getVideoTracks st") (simp_all add: getFacingMode_def test_i_def str_includes_iff)

lemma getFacingMode_user_iff:
  "getFacingMode st = Some ''user'' \<longleftrightarrow>
     (\<exists>t ts. getVideoTracks st = t # ts
        \<and> \<not> (\<exists>w \<in> {''rear'', ''back'', ''environment''}. \<exists>u v. map toLowerCase (label t) = u @ w @ v)
        \<and> (\<exists>w \<in> {''front'', ''user'', ''face''}. \<exists>u v. map toLowerCase (label t) = u @ w @ v))"
  by (cases "getVideoTracks st") (simp_all add: getFacingMode_def test_i_def str_includes_iff)

lemma facing_mode_no_front_camera:
  assumes "now k = ''user''" and "3 \<le> k" and "k < 6"
    and "\<forall>j<k. g j (constraintSets ''user'' ! j) = None"
    and "g k (constraintSets ''user'' ! k) = Some st"
    and "getFacingMode st \<noteq> Some ''user''"
  shows "fst (getCameraStream (Some g) ''user'' now) = Inr (st, ''environment'')"
proof -
  have k3: "\<not> k < 3" using assms(2) by simp
  have res: "fst (getCameraStream (Some g) ''user'' now) =
           Inr (st, (case getFacingMode st of
                       Some m \<Rightarrow> m
                     | None \<Rightarrow>
                         if k < 3 \<and> (''user'' = ''environment'' \<or> ''user'' = ''user'') then now k
                         else if now k = ''environment'' then ''user''
                         else ''environment''))"
    using assms(3,4,5) by (rule facing_mode_of_stream)
  from assms(6) getFacingMode_range[of st]
  consider "getFacingMode st = None" | "getFacingMode st = Some ''environment''" by auto
  then show ?thesis
  proof cases
    case 1
    with res k3 assms(1) show ?thesis by simp
  next
    case 2
    with res show ?thesis by simp
  qed
qed

lemma getFacingMode_rear_camera: "getFacingMode rear_camera = None"
  unfolding rear_camera_def by code_simp

text \<open>
  C6 says that a stream whose label names no side, obtained under a facing-mode
  constraint, is reported with the requested side. The code does not keep it when
  \<open>setCamera\<close> assigns the preference while the negotiation is pending: the constraint
  sets were built from the old preference, and the side is read from the new one. A
  scanner is constructed with the preference \<open>'environment'\<close> and started; while its
  first negotiation (exact facing mode \<open>'environment'\<close>) is pending, \<open>setCamera('user')\<close>
  is called; the negotiation resolves with a stream whose label names no side. The stream
  is reported as \<open>'user'\<close>, and the video is mirrored. Had the new preference been a
  device id, the device id would be reported as the facing side.
\<close>

theorem facing_mode_after_setCamera:
  "getCameraStream (Some (\<lambda>i c. Some rear_camera)) ''environment'' (\<lambda>i. ''user'')
     = (Inr (rear_camera, ''user''),
        [\<lparr>width_min = Some 1024, facingMode_exact = Some ''environment'', deviceId_exact = None\<rparr>])
   \<and> getCameraStream (Some (\<lambda>i c. Some rear_camera)) ''environment'' (\<lambda>i. ''0a1b'')
     = (Inr (rear_camera, ''0a1b''),
        [\<lparr>width_min = Some 1024, facingMode_exact = Some ''environment'', deviceId_exact = None\<rparr>])
   \<and> effects (run [Call Start, Call (SetCamera ''user''), Completes 0 (GumResolved rear_camera)]
               (constructor ''environment'' False True False))
     = [GetUserMedia \<lparr>width_min = Some 1024, facingMode_exact = Some ''environment'',
                      deviceId_exact = None\<rparr>,
        GetUserMedia \<lparr>width_min = Some 1024, facingMode_exact = Some ''user'',
                      deviceId_exact = None\<rparr>]
   \<and> pending (run [Call Start, Call (SetCamera ''user''), Completes 0 (GumResolved rear_camera)]
               (constructor ''environment'' False True False))
     = [StartStream (constraintSets ''user''), StartPlay ''user'']
   \<and> srcObject (run [Call Start, Call (SetCamera ''user''), Completes 0 (GumResolved rear_camera)]
               (constructor ''environment'' False True False)) = StreamSrc 0
   \<and> scaleX (run [Call Start, Call (SetCamera ''user''), Completes 0 (GumResolved rear_camera),
                  Completes 1 PlayResolved]
               (constructor ''environment'' False True False)) = - 1"
  by (simp add: getCameraStream_def constraintSets_explicit preferenceType_def facingModeOf_def
      getFacingMode_rear_camera run_def constructor_def start_def negotiate_def log_def
      schedule_def setCamera_def restartVideoStream_def pause_def stopStream_def resume_def
      new_stream_def start_acquired_def start_played_def setVideoMirror_def Let_def)

section \<open>Properties of the rasterisation\<close>










section \<open>Properties of the decode request and of the retry\<close>

lemma unsettled_posted: "unsettled request_posted"
  by (simp add: unsettled_def request_posted_def)

lemma deliver_not_settling: "unsettled p \<Longrightarrow> \<not> settling e \<Longrightarrow> deliver e p = p"
  by (cases e) (simp_all add: onMessage_def)

lemma deliver_settling: "unsettled p \<Longrightarrow> settling e \<Longrightarrow> settled_once (deliver e p)"
  by (cases e)
     (auto simp: unsettled_def settled_once_def onMessage_def onError_def Let_def split: option.split)

lemma deliver_settled: "settled_once p \<Longrightarrow> deliver e p = p"
  by (cases e) (simp_all add: settled_once_def)

lemma deliver_all_settled: "settled_once p \<Longrightarrow> deliver_all evs p = p"
  unfolding deliver_all_def by (induction evs) (simp_all add: deliver_settled)

lemma deliver_all_not_settling:
  "unsettled p \<Longrightarrow> \<forall>e\<in>set evs. \<not> settling e \<Longrightarrow> deliver_all evs p = p"
  unfolding deliver_all_def by (induction evs) (simp_all add: deliver_not_settling)

lemma deliver_all_append: "deliver_all (xs @ ys) p = deliver_all ys (deliver_all xs p)"
  by (simp add: deliver_all_def)

lemma deliver_all_Cons: "deliver_all (e # evs) p = deliver_all evs (deliver e p)"
  by (simp add: deliver_all_def)

lemma deliver_all_first_settling:
  "unsettled p \<Longrightarrow> \<forall>e\<in>set pre. \<not> settling e \<Longrightarrow> settling e \<Longrightarrow>
     deliver_all (pre @ e # post) p = deliver e p"
  by (simp add: deliver_all_append deliver_all_Cons deliver_all_not_settling
      deliver_all_settled deliver_settling)

lemma deliver_all_cases:
  "unsettled p \<Longrightarrow>
     (if \<exists>e\<in>set evs. settling e then settled_once (deliver_all evs p) else deliver_all evs p = p)"
proof (induction evs arbitrary: p)
  case Nil
  then show ?case by (simp add: deliver_all_def)
next
  case (Cons e evs)
  show ?case
  proof (cases "settling e")
    case True
    with Cons.prems have "settled_once (deliver e p)" by (simp add: deliver_settling)
    then have "settled_once (deliver_all (e # evs) p)"
      by (simp add: deliver_all_Cons deliver_all_settled)
    with True show ?thesis by simp
  next
    case False
    with Cons.prems have "deliver e p = p" by (simp add: deliver_not_settling)
    with Cons.IH[OF Cons.prems] False show ?thesis by (simp add: deliver_all_Cons)
  qed
qed

lemma timeout_settlement:
  "unsettled p \<Longrightarrow> settlements (deliver TimerExpires p) = [Reject ''Scanner error: timeout'']"
  by (simp add: unsettled_def onError_def errorMessage_of_def)

text \<open>
  What the code keeps of C4: once the executor has run to its end, whatever the
  environment delivers to the request, and in whatever order, \<open>resolve\<close> or \<open>reject\<close>
  is called at most once, and exactly once as soon as a \<open>qrResult\<close> message, an error
  event or the expiry of the timer has been delivered. Once it is called neither listener
  is registered and the timer is not pending, so what is delivered later changes nothing.
  The first such event decides the outcome; when it is the expiry of the timer, the
  outcome is the rejection \<open>'Scanner error: timeout'\<close>.
\<close>

lemma executor_posted: "executor (Inr pixels) = request_posted"
  by (simp add: executor_def request_posted_def)

lemma posted_request_settles_once:
  "length (settlements (deliver_all evs request_posted)) \<le> 1
   \<and> (length (settlements (deliver_all evs request_posted)) = 1 \<longleftrightarrow> (\<exists>e\<in>set evs. settling e))
   \<and> (settlements (deliver_all evs request_posted) \<noteq> [] \<longrightarrow>
        \<not> messageListener (deliver_all evs request_posted)
        \<and> \<not> errorListener (deliver_all evs request_posted)
        \<and> \<not> timeout (deliver_all evs request_posted))
   \<and> (settlements (deliver_all evs request_posted) \<noteq> [] \<longrightarrow>
        deliver_all (evs @ late) request_posted = deliver_all evs request_posted)
   \<and> ((\<forall>e\<in>set evs. \<not> settling e) \<and> settling e \<longrightarrow>
        deliver_all (evs @ e # late) request_posted = deliver e request_posted)
   \<and> ((\<forall>e\<in>set evs. \<not> settling e) \<longrightarrow>
        settlements (deliver_all (evs @ TimerExpires # late) request_posted)
          = [Reject ''Scanner error: timeout''])"
proof -
  let ?p = "deliver_all evs request_posted"
  have cases: "if \<exists>e\<in>set evs. settling e then settled_once ?p else ?p = request_posted"
    using deliver_all_cases[OF unsettled_posted] .
  have a: "length (settlements ?p) \<le> 1"
    using cases by (auto simp: settled_once_def request_posted_def split: if_splits)
  have b: "length (settlements ?p) = 1 \<longleftrightarrow> (\<exists>e\<in>set evs. settling e)"
    using cases by (auto simp: settled_once_def request_posted_def split: if_splits)
  have s: "settled_once ?p" if "settlements ?p \<noteq> []"
    using cases that by (auto simp: request_posted_def split: if_splits)
  have c: "settlements ?p \<noteq> [] \<longrightarrow>
        \<not> messageListener ?p \<and> \<not> errorListener ?p \<and> \<not> timeout ?p"
    using s by (simp add: settled_once_def)
  have d: "settlements ?p \<noteq> [] \<longrightarrow> deliver_all (evs @ late) request_posted = ?p"
    using s by (simp add: deliver_all_append deliver_all_settled)
  have e: "(\<forall>e\<in>set evs. \<not> settling e) \<and> settling e \<longrightarrow>
        deliver_all (evs @ e # late) request_posted = deliver e request_posted"
    using deliver_all_first_settling[OF unsettled_posted] by blast
  have f: "(\<forall>e\<in>set evs. \<not> settling e) \<longrightarrow>
        settlements (deliver_all (evs @ TimerExpires # late) request_posted)
          = [Reject ''Scanner error: timeout'']"
    using deliver_all_first_settling[OF unsettled_posted, of evs TimerExpires late]
      timeout_settlement[OF unsettled_posted] by simp
  from a b c d e f show ?thesis by (intro conjI)
qed

text \<open>
  The path the code does not keep: when the executor throws, the promise is rejected while
  both listeners and the timer stay, whatever was thrown.
\<close>

lemma executor_thrown:
  "executor (Inl e)
     = \<lparr>messageListener = True, errorListener = True, timeout = True, settlements = [Threw e]\<rparr>"
  by (simp add: executor_def)

text \<open>
  C4 says that whichever outcome settles the promise of a decode request first, both
  listeners are removed and the timer is cleared on that path, so that nothing settles
  the promise a second time. The code does not keep it when the executor throws after it
  has registered the listeners and started the timer. With a worker engine
  \<open>scanImage\<close> is given an image of another origin, so that the canvas is not
  origin-clean, or a video element whose metadata is not loaded, so that the canvas has
  the size 0 by 0: \<open>getImageData\<close> throws, the promise is rejected with the exception,
  and both listeners and the timer are still there. A \<open>qrResult\<close> message that the
  worker sends later, or the expiry of the timer, then runs the handler: only then are
  the listeners removed, and \<open>resolve\<close> or \<open>reject\<close> is called on the promise that is
  rejected already.
\<close>

theorem executor_throw_keeps_listeners:
  "executor (getImageData False \<lparr>canvas_width = 640, canvas_height = 480\<rparr>)
     = \<lparr>messageListener = True, errorListener = True, timeout = True,
        settlements = [Threw (ErrObject ''SecurityError'')]\<rparr>
   \<and> executor
        (getImageData True
           (fst (drawToCanvas
                   \<lparr>videoWidth = Num 0, videoHeight = Num 0, image_width = Num 0,
                    image_height = Num 0\<rparr>
                   None None False)))
     = \<lparr>messageListener = True, errorListener = True, timeout = True,
        settlements = [Threw (ErrObject ''IndexSizeError'')]\<rparr>
   \<and> deliver (MessageEvent ''qrResult'' (Some ''late''))
        (executor (getImageData False \<lparr>canvas_width = 640, canvas_height = 480\<rparr>))
     = \<lparr>messageListener = False, errorListener = False, timeout = False,
        settlements = [Threw (ErrObject ''SecurityError''), Resolve ''late'']\<rparr>
   \<and> deliver TimerExpires
        (executor (getImageData False \<lparr>canvas_width = 640, canvas_height = 480\<rparr>))
     = \<lparr>messageListener = False, errorListener = False, timeout = False,
        settlements = [Threw (ErrObject ''SecurityError''), Reject ''Scanner error: timeout'']\<rparr>
   \<and> settled_as (deliver TimerExpires
        (executor (getImageData False \<lparr>canvas_width = 640, canvas_height = 480\<rparr>)))
     = Some (Threw (ErrObject ''SecurityError''))"
  by (simp add: executor_def getImageData_def drawToCanvas_def Let_def region_field_def
      or_else_def truthy_def createCanvas_def set_size_def to_unsigned_long_def
      onMessage_def onError_def errorMessage_of_def settled_as_def)

lemma scanImage_no_retry:
  "scanRegion = None \<or> \<not> alsoTry \<Longrightarrow>
     scanImage attempt n scanRegion alsoTry = (attempt n scanRegion, [scanRegion])"
  by (auto split: sum.split)

text \<open>
  C5. When \<open>scanImage\<close> has a scan region and \<open>alsoTryWithoutScanRegion\<close> is true,
  a decode attempt that fails is followed by exactly one more attempt, with no region,
  and that attempt's outcome is the outcome of the call. When there is no region or
  \<open>alsoTryWithoutScanRegion\<close> is false, the outcome of the one attempt is the outcome
  of the call. An attempt that succeeds is never followed by another.
\<close>

theorem scanImage_retry:
  "(scanRegion \<noteq> None \<and> alsoTry \<and> attempt n scanRegion = Inl e \<longrightarrow>
      scanImage attempt n scanRegion alsoTry = (attempt (Suc n) None, [scanRegion, None]))
   \<and> (scanRegion = None \<or> \<not> alsoTry \<longrightarrow>
      scanImage attempt n scanRegion alsoTry = (attempt n scanRegion, [scanRegion]))
   \<and> (attempt n scanRegion = Inr result \<longrightarrow>
      scanImage attempt n scanRegion alsoTry = (Inr result, [scanRegion]))
   \<and> length (snd (scanImage attempt n scanRegion alsoTry)) \<le> 2"
proof (intro conjI impI)
  show "scanImage attempt n scanRegion alsoTry = (attempt (Suc n) None, [scanRegion, None])"
    if "scanRegion \<noteq> None \<and> alsoTry \<and> attempt n scanRegion = Inl e"
    using that scanImage_no_retry[of None False attempt "Suc n"] by (simp del: scanImage.simps add: scanImage.simps[of attempt n])
  show "scanImage attempt n scanRegion alsoTry = (attempt n scanRegion, [scanRegion])"
    if "scanRegion = None \<or> \<not> alsoTry"
    using that by (rule scanImage_no_retry)
  show "scanImage attempt n scanRegion alsoTry = (Inr result, [scanRegion])"
    if "attempt n scanRegion = Inr result"
    using that by simp
  show "length (snd (scanImage attempt n scanRegion alsoTry)) \<le> 2"
    using scanImage_no_retry[of None False attempt "Suc n"]
    by (simp del: scanImage.simps add: scanImage.simps[of attempt n] split: sum.split)
qed

theorem scanImage_retry_witness:
  "scanImage (\<lambda>n r. if r = None then Inr ''abc'' else Inl (ErrString NO_QR_CODE_FOUND)) 0
     (Some \<lparr>region_x = Num 5, region_y = Num 5, region_width = Num 10, region_height = Num 10,
            downScaledWidth = Undefined, downScaledHeight = Undefined\<rparr>) True
   = (Inr ''abc'',
      [Some \<lparr>region_x = Num 5, region_y = Num 5, region_width = Num 10, region_height = Num 10,
             downScaledWidth = Undefined, downScaledHeight = Undefined\<rparr>, None])
   \<and> scanImage (\<lambda>n r. if r = None then Inr ''abc'' else Inl (ErrString NO_QR_CODE_FOUND)) 0
     (Some \<lparr>region_x = Num 5, region_y = Num 5, region_width = Num 10, region_height = Num 10,
            downScaledWidth = Undefined, downScaledHeight = Undefined\<rparr>) False
   = (Inl (ErrString NO_QR_CODE_FOUND),
      [Some \<lparr>region_x = Num 5, region_y = Num 5, region_width = Num 10, region_height = Num 10,
             downScaledWidth = Undefined, downScaledHeight = Undefined\<rparr>])"
  using scanImage_retry
    [of "Some \<lparr>region_x = Num 5, region_y = Num 5, region_width = Num 10, region_height = Num 10,
            downScaledWidth = Undefined, downScaledHeight = Undefined\<rparr>" True
        "\<lambda>n r. if r = None then Inr ''abc'' else Inl (ErrString NO_QR_CODE_FOUND)" 0
        "ErrString NO_QR_CODE_FOUND"]
    scanImage_retry
    [of "Some \<lparr>region_x = Num 5, region_y = Num 5, region_width = Num 10, region_height = Num 10,
            downScaledWidth = Undefined, downScaledHeight = Undefined\<rparr>" False
        "\<lambda>n r. if r = None then Inr ''abc'' else Inl (ErrString NO_QR_CODE_FOUND)" 0]
  by (simp del: scanImage.simps)

section \<open>The acquisition inside start\<close>

text \<open>
  The acquisition that \<open>start\<close> waits for, answered event by event, ends as the loop
  of \<open>_getCameraStream\<close> does: with the stream and the facing side of the first
  negotiation that succeeds handed to the rest of \<open>start\<close>, or with
  \<open>'Camera not found.'\<close> handed to its \<open>catch\<close> clause, and with the same
  negotiations opened.
\<close>

lemma run_Cons: "run (e # evs) s = run evs (step e s)"
  by (simp add: run_def)

lemma run_Nil: "run [] s = s"
  by (simp add: run_def)

lemma acquisition_agrees:
  "pending s = ps @ [StartStream cs] \<Longrightarrow> cs \<noteq> [] \<Longrightarrow>
     run (answers g (length ps) i cs) s =
       (case fst (tryConstraints g (\<lambda>_. preferredCamera s) i cs) of
          Inr (stream, facingMode) \<Rightarrow>
            start_acquired (next_stream s) facingMode
              (new_stream stream
                 (s\<lparr>pending := ps,
                    effects := effects s @ map GetUserMedia
                      (tl (snd (tryConstraints g (\<lambda>_. preferredCamera s) i cs)))\<rparr>))
        | Inl e \<Rightarrow>
            start_failed camera_not_found
              (s\<lparr>pending := ps,
                 effects := effects s @ map GetUserMedia
                   (tl (snd (tryConstraints g (\<lambda>_. preferredCamera s) i cs)))\<rparr>))"
proof (induction cs arbitrary: s i)
  case Nil
  then show ?case by simp
next
  case (Cons c cs)
  have rm: "take (length ps) (pending s) @ drop (Suc (length ps)) (pending s) = ps"
    using Cons.prems(1) by simp
  have at: "pending s ! length ps = StartStream (c # cs)"
    using Cons.prems(1) by simp
  have lt: "length ps < length (pending s)"
    using Cons.prems(1) by simp
  show ?case
  proof (cases "g i c")
    case (Some stream)
    then show ?thesis
      using rm at lt
      by (simp add: run_Cons run_Nil answer_def resume_def new_stream_def start_acquired_def)
  next
    case None
    show ?thesis
    proof (cases cs)
      case Nil
      with None rm at lt show ?thesis
        by (simp add: run_Cons run_Nil answer_def resume_def negotiate_def)
    next
      case (Cons c' cs')
      let ?s = "s\<lparr>pending := ps @ [StartStream cs], effects := effects s @ [GetUserMedia c']\<rparr>"
      have st: "step (Completes (length ps) (answer g i c)) s = ?s"
        using None rm at lt Cons
        by (simp add: answer_def resume_def negotiate_def log_def schedule_def)
      have p: "pending ?s = ps @ [StartStream cs]" by simp
      have ne: "cs \<noteq> []" using Cons by simp
      have tl: "snd (tryConstraints g (\<lambda>_. preferredCamera s) (Suc i) cs) \<noteq> []"
        using Cons by (simp add: split_beta split: option.split)
      have hd: "hd (snd (tryConstraints g (\<lambda>_. preferredCamera s) (Suc i) cs)) = c'"
        using Cons by (simp add: split_beta split: option.split)
      have e: "[GetUserMedia c'] @ map GetUserMedia (tl (snd (tryConstraints g (\<lambda>_. preferredCamera s) (Suc i) cs)))
            = map GetUserMedia (snd (tryConstraints g (\<lambda>_. preferredCamera s) (Suc i) cs))"
        using tl hd by (cases "snd (tryConstraints g (\<lambda>_. preferredCamera s) (Suc i) cs)") simp_all
      from Cons.IH[OF p ne, of "Suc i"] None st e show ?thesis
        by (simp add: run_Cons split_beta new_stream_def start_acquired_def start_failed_def
            split: sum.split)
    qed
  qed
qed

section \<open>Properties of pause and resume\<close>

lemma fold_stopTrack:
  "fold (stopTrack sid) ts s =
     s\<lparr>ended := ended s \<union> tid ` set ts,
       streams := (streams s)(sid := filter (\<lambda>u. tid u \<notin> tid ` set ts) (streams s sid))\<rparr>"
proof (induction ts arbitrary: s)
  case Nil
  then show ?case by simp
next
  case (Cons t ts)
  have "filter (\<lambda>u. tid u \<notin> tid ` set ts) (removeTrack t (streams s sid))
        = filter (\<lambda>u. tid u \<notin> tid ` set (t # ts)) (streams s sid)"
    by (auto simp: removeTrack_def intro: filter_cong)
  then have "(stopTrack sid t s)
        \<lparr>ended := ended (stopTrack sid t s) \<union> tid ` set ts,
          streams := (streams (stopTrack sid t s))
             (sid := filter (\<lambda>u. tid u \<notin> tid ` set ts) (streams (stopTrack sid t s) sid))\<rparr>
      = s\<lparr>ended := ended s \<union> tid ` set (t # ts),
           streams := (streams s)
             (sid := filter (\<lambda>u. tid u \<notin> tid ` set (t # ts)) (streams s sid))\<rparr>"
    by (simp add: stopTrack_def)
  moreover have "fold (stopTrack sid) (t # ts) s = fold (stopTrack sid) ts (stopTrack sid t s)"
    by simp
  ultimately show ?case by (simp only: Cons.IH)
qed

lemma stopVideoStream_eq:
  "stopVideoStream sid s =
     s\<lparr>ended := ended s \<union> tid ` set (streams s sid), streams := (streams s)(sid := [])\<rparr>"
proof -
  have "filter (\<lambda>u. tid u \<notin> tid ` set (streams s sid)) (streams s sid) = []"
    by (simp add: filter_empty_conv)
  then show ?thesis by (simp add: stopVideoStream_def fold_stopTrack)
qed

lemma pause_immediate:
  "active s \<Longrightarrow> pause True s = (Some True, stopStream (s\<lparr>paused := True, video_paused := True\<rparr>))"
  by (simp add: pause_def Let_def)

lemma pause_deferred:
  "active s \<Longrightarrow> pause False s = (None, s\<lparr>paused := True, video_paused := True, pending := pending s @ [PauseTimer]\<rparr>)"
  by (simp add: pause_def Let_def schedule_def)

lemma pause_True_returns: "fst (pause True s) = Some True"
  by (simp add: pause_def Let_def)

lemma scanning_eq:
  "scanning =
     \<lparr>active = True, paused = False, flashOn = False, destroyed = False,
      preferredCamera = ''environment'', customErrorHandler = False,
      srcObject = StreamSrc 0, video_paused = False, video_ended = False, readyState = 0,
      scaleX = 1, listening = True, hidden = False, mediaDevices = True,
      streams = (\<lambda>_. [])(0 := rear_camera), next_stream = 1, ended = {}, pending = [],
      effects = [GetUserMedia \<lparr>width_min = Some 1024, facingMode_exact = Some ''environment'',
                                deviceId_exact = None\<rparr>]\<rparr>"
proof -
  have "getFacingMode rear_camera = None" unfolding rear_camera_def by code_simp
  then show ?thesis
  by (simp add: scanning_def run_def constructor_def start_def negotiate_def constraintSets_def
      constraintsWithCamera_def constraintsWithoutCamera_def preferenceType_def log_def
      schedule_def resume_def new_stream_def start_acquired_def facingModeOf_def
      start_played_def setVideoMirror_def Let_def)
qed


lemma stopStream_stream:
  "srcObject s = StreamSrc sid \<Longrightarrow>
     stopStream s = s\<lparr>ended := ended s \<union> tid ` set (streams s sid),
                     streams := (streams s)(sid := []), srcObject := NoSrc\<rparr>"
  by (simp add: stopStream_def stopVideoStream_eq)

lemma stopStream_effects: "effects (stopStream s) = effects s"
  by (simp add: stopStream_def stopVideoStream_eq split: src_object.split)

lemma stopStream_pending: "pending (stopStream s) = pending s"
  by (simp add: stopStream_def stopVideoStream_eq split: src_object.split)

lemma stopStream_paused: "paused (stopStream s) = paused s"
  by (simp add: stopStream_def stopVideoStream_eq split: src_object.split)

lemma pause_resume_run:
  assumes "active s" and "\<not> destroyed s" and "\<not> hidden s" and "srcObject s = StreamSrc sid"
  shows "run [Call (Pause False), Call Start, Completes (length (pending s)) Expired] s
         = s\<lparr>paused := False, video_paused := False, active := True,
              effects := effects s @ [PauseResolved False]\<rparr>"
  using assms
  by (simp add: run_def pause_deferred start_def Let_def resume_def pause_expired_def log_def)

text \<open>
  C2, as stated, fails. On the scanning scanner \<open>pause(false)\<close> is called, \<open>start()\<close>
  resumes the scanner within the 300 ms, and \<open>pause(false)\<close> is called again. When the
  timer of the first call expires the scanner is paused, so the first call releases the
  stream and resolves \<open>true\<close>, although \<open>start()\<close> had resumed the scanner within
  its window.
\<close>

theorem pause_release_counterexample:
  "active scanning \<and> srcObject scanning = StreamSrc 0
   \<and> \<not> paused (run [Call (Pause False), Call Start] scanning)
   \<and> srcObject (run [Call (Pause False), Call Start] scanning) = StreamSrc 0
   \<and> srcObject (run [Call (Pause False), Call Start, Call (Pause False), Completes 0 Expired]
          scanning) = NoSrc
   \<and> ended (run [Call (Pause False), Call Start, Call (Pause False), Completes 0 Expired]
          scanning) = {0}
   \<and> effects (run [Call (Pause False), Call Start, Call (Pause False), Completes 0 Expired]
          scanning) = effects scanning @ [PauseResolved True]"
  by (simp add: scanning_eq run_def pause_def start_def Let_def resume_def pause_expired_def
      log_def schedule_def stopStream_def stopVideoStream_eq rear_camera_def)

text \<open>
  C2, amended. On an active scanner \<open>pause(true)\<close> does not wait: it resolves
  \<open>true\<close>, and a capture stream that is attached is detached and has all its tracks
  stopped and removed when the call returns. \<open>pause(false)\<close> on an active scanner leaves
  the stream as it is and waits for the timer of 300 ms. When the timer expires, the call
  looks at the \<open>paused\<close> flag of that moment only: if the scanner is not paused then
  (a \<open>start()\<close> has resumed it and no later \<open>pause\<close> has paused it again), the call
  leaves the stream as it is and resolves \<open>false\<close>; if it is paused, the call releases
  the stream and resolves \<open>true\<close>. In particular \<open>pause(false)\<close>, then \<open>start()\<close>
  on a visible page, then the expiry of the timer leave the stream attached and unstopped,
  and the call resolves \<open>false\<close>.
\<close>

theorem pause_release:
  "(active s \<longrightarrow>
      fst (pause True s) = Some True
      \<and> pending (snd (pause True s)) = pending s
      \<and> paused (snd (pause True s))
      \<and> (srcObject s = StreamSrc sid \<longrightarrow>
           srcObject (snd (pause True s)) = NoSrc
           \<and> streams (snd (pause True s)) sid = []
           \<and> tid ` set (streams s sid) \<subseteq> ended (snd (pause True s))))
   \<and> (active s \<longrightarrow>
      fst (pause False s) = None
      \<and> pending (snd (pause False s)) = pending s @ [PauseTimer]
      \<and> paused (snd (pause False s))
      \<and> srcObject (snd (pause False s)) = srcObject s
      \<and> streams (snd (pause False s)) = streams s
      \<and> ended (snd (pause False s)) = ended s)
   \<and> (\<not> paused s1 \<longrightarrow>
      effects (pause_expired s1) = effects s1 @ [PauseResolved False]
      \<and> srcObject (pause_expired s1) = srcObject s1
      \<and> streams (pause_expired s1) = streams s1
      \<and> ended (pause_expired s1) = ended s1)
   \<and> (paused s2 \<longrightarrow>
      effects (pause_expired s2) = effects s2 @ [PauseResolved True]
      \<and> (srcObject s2 = StreamSrc sid2 \<longrightarrow>
           srcObject (pause_expired s2) = NoSrc
           \<and> streams (pause_expired s2) sid2 = []
           \<and> tid ` set (streams s2 sid2) \<subseteq> ended (pause_expired s2)))
   \<and> (active s \<and> \<not> destroyed s \<and> \<not> hidden s \<and> srcObject s = StreamSrc sid \<longrightarrow>
      \<not> paused (run [Call (Pause False), Call Start, Completes (length (pending s)) Expired] s)
      \<and> srcObject (run [Call (Pause False), Call Start, Completes (length (pending s)) Expired] s)
          = StreamSrc sid
      \<and> streams (run [Call (Pause False), Call Start, Completes (length (pending s)) Expired] s)
          = streams s
      \<and> ended (run [Call (Pause False), Call Start, Completes (length (pending s)) Expired] s)
          = ended s
      \<and> effects (run [Call (Pause False), Call Start, Completes (length (pending s)) Expired] s)
          = effects s @ [PauseResolved False])"
proof (intro conjI impI)
  assume a: "active s"
  show "fst (pause True s) = Some True" by (rule pause_True_returns)
  show "pending (snd (pause True s)) = pending s"
    using a by (simp add: pause_immediate stopStream_pending)
  show "paused (snd (pause True s))"
    using a by (simp add: pause_immediate stopStream_paused)
  show "fst (pause False s) = None" using a by (simp add: pause_deferred)
  show "pending (snd (pause False s)) = pending s @ [PauseTimer]"
    using a by (simp add: pause_deferred)
  show "paused (snd (pause False s))" using a by (simp add: pause_deferred)
  show "srcObject (snd (pause False s)) = srcObject s" using a by (simp add: pause_deferred)
  show "streams (snd (pause False s)) = streams s" using a by (simp add: pause_deferred)
  show "ended (snd (pause False s)) = ended s" using a by (simp add: pause_deferred)
next
  assume a: "active s" and b: "srcObject s = StreamSrc sid"
  show "srcObject (snd (pause True s)) = NoSrc"
    using a b by (simp add: pause_immediate stopStream_stream)
  show "streams (snd (pause True s)) sid = []"
    using a b by (simp add: pause_immediate stopStream_stream)
  show "tid ` set (streams s sid) \<subseteq> ended (snd (pause True s))"
    using a b by (simp add: pause_immediate stopStream_stream)
next
  assume a: "\<not> paused s1"
  show "effects (pause_expired s1) = effects s1 @ [PauseResolved False]"
    using a by (simp add: pause_expired_def log_def)
  show "srcObject (pause_expired s1) = srcObject s1"
    using a by (simp add: pause_expired_def log_def)
  show "streams (pause_expired s1) = streams s1"
    using a by (simp add: pause_expired_def log_def)
  show "ended (pause_expired s1) = ended s1"
    using a by (simp add: pause_expired_def log_def)
next
  assume a: "paused s2"
  show "effects (pause_expired s2) = effects s2 @ [PauseResolved True]"
    using a by (simp add: pause_expired_def log_def stopStream_effects)
next
  assume a: "paused s2" and b: "srcObject s2 = StreamSrc sid2"
  show "srcObject (pause_expired s2) = NoSrc"
    using a b by (simp add: pause_expired_def log_def stopStream_stream)
  show "streams (pause_expired s2) sid2 = []"
    using a b by (simp add: pause_expired_def log_def stopStream_stream)
  show "tid ` set (streams s2 sid2) \<subseteq> ended (pause_expired s2)"
    using a b by (simp add: pause_expired_def log_def stopStream_stream)
next
  assume "active s \<and> \<not> destroyed s \<and> \<not> hidden s \<and> srcObject s = StreamSrc sid"
  then have r: "run [Call (Pause False), Call Start, Completes (length (pending s)) Expired] s
         = s\<lparr>paused := False, video_paused := False, active := True,
              effects := effects s @ [PauseResolved False]\<rparr>"
    by (simp add: pause_resume_run)
  show "\<not> paused (run [Call (Pause False), Call Start, Completes (length (pending s)) Expired] s)"
    by (simp add: r)
  show "srcObject (run [Call (Pause False), Call Start, Completes (length (pending s)) Expired] s)
          = StreamSrc sid"
    using \<open>active s \<and> \<not> destroyed s \<and> \<not> hidden s \<and> srcObject s = StreamSrc sid\<close>
    by (simp add: r)
  show "streams (run [Call (Pause False), Call Start, Completes (length (pending s)) Expired] s)
          = streams s"
    by (simp add: r)
  show "ended (run [Call (Pause False), Call Start, Completes (length (pending s)) Expired] s)
          = ended s"
    by (simp add: r)
  show "effects (run [Call (Pause False), Call Start, Completes (length (pending s)) Expired] s)
          = effects s @ [PauseResolved False]"
    by (simp add: r)
qed

theorem pause_release_witness:
  "fst (pause True scanning) = Some True
   \<and> srcObject (snd (pause True scanning)) = NoSrc
   \<and> 0 \<in> ended (snd (pause True scanning))
   \<and> fst (pause False scanning) = None
   \<and> srcObject (snd (pause False scanning)) = StreamSrc 0
   \<and> ended (snd (pause False scanning)) = {}
   \<and> srcObject (pause_expired (snd (pause False scanning))) = NoSrc
   \<and> effects (pause_expired (snd (pause False scanning))) = effects scanning @ [PauseResolved True]
   \<and> effects (pause_expired scanning) = effects scanning @ [PauseResolved False]
   \<and> srcObject (run [Call (Pause False), Call Start, Completes 0 Expired] scanning) = StreamSrc 0
   \<and> ended (run [Call (Pause False), Call Start, Completes 0 Expired] scanning) = {}
   \<and> effects (run [Call (Pause False), Call Start, Completes 0 Expired] scanning)
        = effects scanning @ [PauseResolved False]"
  using pause_release[of scanning 0 scanning "snd (pause False scanning)" 0]
  by (simp add: scanning_eq rear_camera_def pause_deferred)

section \<open>Properties of the destroyed scanner\<close>

text \<open>
  The state \<open>destroy\<close> leaves is terminal: no event leaves it, and a call of a public
  method changes neither the source of the video, nor a stream, nor what is pending.
\<close>

lemma terminal_destroy: "terminal (destroy s)"
  by (simp add: terminal_def destroy_def stop_def pause_def Let_def log_def schedule_def)

lemma terminal_invoke:
  "terminal s \<Longrightarrow>
     terminal (invoke c s)
     \<and> srcObject (invoke c s) = srcObject s
     \<and> streams (invoke c s) = streams s
     \<and> ended (invoke c s) = ended s
     \<and> pending (invoke c s) = pending s
     \<and> effects (invoke c s) =
         effects s @ (case c of Pause b \<Rightarrow> [PauseResolved True] | Destroy \<Rightarrow> [PostClose] | _ \<Rightarrow> [])"
  by (cases c)
     (simp_all add: terminal_def start_def stop_def pause_def destroy_def setCamera_def
        turnFlashOn_def turnFlashOff_def toggleFlash_def restartVideoStream_def Let_def log_def)


lemma terminal_log: "terminal (log e s) = terminal s"
  by (simp add: terminal_def log_def)

lemma terminal_schedule: "terminal (schedule t s) = terminal s"
  by (simp add: terminal_def schedule_def)

lemma terminal_new_stream: "terminal (new_stream trks s) = terminal s"
  by (simp add: terminal_def new_stream_def)

lemma terminal_stopVideoStream: "terminal (stopVideoStream sid s) = terminal s"
  by (simp add: terminal_def stopVideoStream_eq)

lemma terminal_stopStream: "terminal (stopStream s) = terminal s"
  by (simp add: terminal_def stopStream_def stopVideoStream_eq split: src_object.split)

lemma terminal_negotiate: "terminal s \<Longrightarrow> negotiate w cs s = Some s' \<Longrightarrow> terminal s'"
  by (auto simp: negotiate_def terminal_log terminal_schedule split: list.splits)

lemma terminal_pause_expired: "terminal s \<Longrightarrow> terminal (pause_expired s)"
  by (simp add: pause_expired_def terminal_log terminal_stopStream)

lemma terminal_start_failed: "terminal s \<Longrightarrow> start_failed e s = s"
  by (simp add: terminal_def start_failed_def)

lemma terminal_start_acquired:
  "terminal s \<Longrightarrow> start_acquired sid fm s = stopVideoStream sid s"
  by (simp add: terminal_def start_acquired_def)

lemma terminal_start_played: "terminal s \<Longrightarrow> terminal (start_played fm s)"
  by (simp add: terminal_def start_played_def setVideoMirror_def Let_def)

lemma terminal_flash_failed: "terminal s \<Longrightarrow> terminal (flash_failed e s)"
  by (simp add: terminal_def flash_failed_def log_def)

lemma terminal_flash_checked: "terminal s \<Longrightarrow> terminal (flash_checked has s)"
  by (simp add: flash_checked_def terminal_flash_failed terminal_log terminal_schedule
      split: src_object.split list.split)

lemma terminal_animationFrame: "terminal s \<Longrightarrow> terminal (animationFrame s)"
  by (simp add: animationFrame_def scanFrame_def terminal_log terminal_schedule)

lemma terminal_decode_settled: "terminal s \<Longrightarrow> terminal (decode_settled r s)"
  by (simp add: terminal_def decode_settled_def scanFrame_def log_def Let_def split: sum.split)

lemma terminal_resume: "terminal s \<Longrightarrow> resume t out s = Some s' \<Longrightarrow> terminal s'"
  by (auto simp: resume_def terminal_pause_expired terminal_start_failed terminal_start_acquired
      terminal_start_played terminal_flash_failed terminal_flash_checked terminal_animationFrame
      terminal_decode_settled terminal_new_stream terminal_stopVideoStream
      dest: terminal_negotiate
      split: task.splits list.splits outcome.splits option.splits)

lemma terminal_step: "terminal s \<Longrightarrow> terminal (step e s)"
proof (cases e)
  case (Call c)
  assume "terminal s"
  with Call terminal_invoke[of s c] show ?thesis by simp
next
  case (Completes i out)
  assume a: "terminal s"
  then have "terminal (s\<lparr>pending := take i (pending s) @ drop (Suc i) (pending s)\<rparr>)"
    by (simp add: terminal_def)
  with a Completes show ?thesis
    by (auto dest: terminal_resume split: option.split)
next
  case (VisibilityChange h)
  assume "terminal s"
  with VisibilityChange show ?thesis by (simp add: terminal_def)
next
  case PlayEvent
  assume "terminal s"
  with PlayEvent show ?thesis by (simp add: terminal_def)
next
  case (VideoState rs en)
  assume "terminal s"
  with VideoState show ?thesis by (simp add: terminal_def)
qed

lemma terminal_run: "terminal s \<Longrightarrow> terminal (run evs s)"
  unfolding run_def by (induction evs arbitrary: s) (simp_all add: terminal_step)


lemma callbacks_log:
  "callbacks (log e s) = callbacks s @ (if callback e then [e] else [])"
  by (simp add: callbacks_def log_def)

lemma callbacks_schedule: "callbacks (schedule t s) = callbacks s"
  by (simp add: callbacks_def schedule_def)

lemma callbacks_stopVideoStream: "callbacks (stopVideoStream sid s) = callbacks s"
  by (simp add: callbacks_def stopVideoStream_eq)

lemma callbacks_stopStream: "callbacks (stopStream s) = callbacks s"
  by (simp add: callbacks_def stopStream_effects)

lemma callbacks_new_stream: "callbacks (new_stream trks s) = callbacks s"
  by (simp add: callbacks_def new_stream_def)

lemma callbacks_negotiate: "negotiate w cs s = Some s' \<Longrightarrow> callbacks s' = callbacks s"
  by (auto simp: negotiate_def callbacks_log callbacks_schedule callback_def split: list.splits)

lemma callbacks_flash_failed: "callbacks (flash_failed e s) = callbacks s"
  by (simp add: flash_failed_def callbacks_def log_def callback_def)

lemma callbacks_flash_checked: "callbacks (flash_checked has s) = callbacks s"
  by (simp add: flash_checked_def callbacks_flash_failed callbacks_log callbacks_schedule
      callback_def split: src_object.split list.split)

lemma callbacks_start_acquired: "callbacks (start_acquired sid fm s) = callbacks s"
  by (simp add: start_acquired_def callbacks_stopVideoStream callbacks_schedule)
     (simp add: callbacks_def)

lemma callbacks_start_failed: "callbacks (start_failed e s) = callbacks s"
  by (simp add: start_failed_def callbacks_def log_def callback_def)

lemma callbacks_start_played:
  "\<not> flashOn s \<Longrightarrow> callbacks (start_played fm s) = callbacks s"
  by (simp add: start_played_def setVideoMirror_def Let_def callbacks_def)

lemma callbacks_pause_expired: "callbacks (pause_expired s) = callbacks s"
  by (simp add: pause_expired_def callbacks_log callbacks_stopStream callback_def)

lemma callbacks_animationFrame: "callbacks (animationFrame s) = callbacks s"
  by (simp add: animationFrame_def scanFrame_def callbacks_log callbacks_schedule callback_def)

lemma callbacks_decode_settled:
  "\<not> active s \<Longrightarrow>
     callbacks (decode_settled r s) = callbacks s @
       (case r of Inr result \<Rightarrow> if result \<noteq> [] then [OnDecode result] else [] | Inl e \<Rightarrow> [])"
  by (simp add: decode_settled_def scanFrame_def log_def callbacks_def callback_def Let_def
      split: sum.split)

lemma inactive_callbacks_resume:
  "\<not> active s \<Longrightarrow> \<not> flashOn s \<Longrightarrow> resume t out s = Some s' \<Longrightarrow>
     callbacks s' = callbacks s @
       (case (t, out) of
          (Decode, DecodeSettled (Inr result)) \<Rightarrow> if result \<noteq> [] then [OnDecode result] else []
        | _ \<Rightarrow> [])"
  by (auto simp: resume_def callbacks_pause_expired callbacks_start_acquired
      callbacks_start_failed callbacks_start_played callbacks_flash_failed
      callbacks_flash_checked callbacks_animationFrame callbacks_decode_settled
      callbacks_new_stream callbacks_stopVideoStream
      dest: callbacks_negotiate
      split: task.splits list.splits outcome.splits option.splits sum.splits)

lemma terminal_callbacks_step:
  "terminal s \<Longrightarrow>
     callbacks (step e s) = callbacks s @
       (case e of
          Completes i (DecodeSettled (Inr result)) \<Rightarrow>
            if i < length (pending s) \<and> pending s ! i = Decode \<and> result \<noteq> []
            then [OnDecode result] else []
        | _ \<Rightarrow> [])"
proof (cases e)
  case (Call c)
  assume "terminal s"
  with Call terminal_invoke[of s c] show ?thesis
    by (cases c) (simp_all add: callbacks_def callback_def)
next
  case (Completes i out)
  assume a: "terminal s"
  let ?s = "s\<lparr>pending := take i (pending s) @ drop (Suc i) (pending s)\<rparr>"
  have b: "\<not> active ?s" "\<not> flashOn ?s" "callbacks ?s = callbacks s"
    using a by (simp_all add: terminal_def callbacks_def)
  show ?thesis
  proof (cases "i < length (pending s)")
    case False
    with Completes show ?thesis by (simp split: outcome.split sum.split)
  next
    case True
    show ?thesis
    proof (cases "resume (pending s ! i) out ?s")
      case None
      with True Completes show ?thesis
        by (auto simp: resume_def split: outcome.splits sum.splits task.splits)
    next
      case (Some s')
      from inactive_callbacks_resume[OF b(1) b(2) Some] b(3) True Completes Some
      show ?thesis
        by (auto simp: resume_def split: outcome.splits sum.splits task.splits list.splits)
    qed
  qed
next
  case (VisibilityChange h)
  assume "terminal s"
  with VisibilityChange show ?thesis by (simp add: terminal_def callbacks_def)
next
  case PlayEvent
  assume "terminal s"
  with PlayEvent show ?thesis by (simp add: terminal_def)
next
  case (VideoState rs en)
  then show ?thesis by (simp add: callbacks_def)
qed

lemma srcObject_negotiate: "negotiate w cs s = Some s' \<Longrightarrow> srcObject s' = srcObject s"
  by (auto simp: negotiate_def log_def schedule_def split: list.splits)

lemma srcObject_flash_checked: "srcObject (flash_checked has s) = srcObject s"
  by (simp add: flash_checked_def flash_failed_def log_def schedule_def
      split: src_object.split list.split)

lemma srcObject_stopStream: "srcObject (stopStream s) = srcObject s \<or> srcObject (stopStream s) = NoSrc"
  by (simp add: stopStream_def stopVideoStream_eq split: src_object.split)

lemma terminal_srcObject_resume:
  "terminal s \<Longrightarrow> resume t out s = Some s' \<Longrightarrow> srcObject s' = srcObject s \<or> srcObject s' = NoSrc"
  using srcObject_stopStream[of s]
  by (auto simp: resume_def pause_expired_def log_def terminal_start_failed
      terminal_start_acquired terminal_new_stream stopVideoStream_eq new_stream_def
      start_played_def setVideoMirror_def Let_def terminal_def srcObject_flash_checked
      flash_failed_def animationFrame_def scanFrame_def schedule_def decode_settled_def
      dest: srcObject_negotiate
      split: task.splits list.splits outcome.splits option.splits sum.splits if_splits)

lemma terminal_srcObject_step:
  "terminal s \<Longrightarrow> srcObject (step e s) = srcObject s \<or> srcObject (step e s) = NoSrc"
proof (cases e)
  case (Call c)
  assume "terminal s"
  with Call terminal_invoke[of s c] show ?thesis by simp
next
  case (Completes i out)
  assume a: "terminal s"
  let ?s = "s\<lparr>pending := take i (pending s) @ drop (Suc i) (pending s)\<rparr>"
  have b: "terminal ?s" "srcObject ?s = srcObject s"
    using a by (simp_all add: terminal_def)
  show ?thesis
  proof (cases "i < length (pending s) \<and> resume (pending s ! i) out ?s \<noteq> None")
    case False
    with Completes show ?thesis by auto
  next
    case True
    then obtain s' where s': "resume (pending s ! i) out ?s = Some s'" by auto
    from terminal_srcObject_resume[OF b(1) s'] b(2) True Completes s' show ?thesis by simp
  qed
next
  case (VisibilityChange h)
  assume "terminal s"
  with VisibilityChange show ?thesis by (simp add: terminal_def)
next
  case PlayEvent
  assume "terminal s"
  with PlayEvent show ?thesis by (simp add: terminal_def)
next
  case (VideoState rs en)
  then show ?thesis by simp
qed

text \<open>
  C3 says that after \<open>destroy()\<close> every public method is without effect: the scanner
  stays destroyed, no stream is acquired and neither the decode callback nor the error
  callback is called again. The lemmas above give the part the code keeps: \<open>destroy\<close>
  leaves a terminal state, no event leaves it or attaches a stream, the calls change
  nothing but the preferred camera and the log of what has resolved, and the only
  callback left is the one below. The code does not keep the last part: a decode that is
  in flight when \<open>destroy()\<close> is called and then succeeds has its result passed to the
  decode callback, after the scanner was destroyed.
\<close>

theorem destroyed_decode_callback:
  "pending (run [PlayEvent, VideoState 4 False, Completes 0 Tick] scanning) = [Decode]
   \<and> terminal (run [PlayEvent, VideoState 4 False, Completes 0 Tick, Call Destroy] scanning)
   \<and> callbacks (run [PlayEvent, VideoState 4 False, Completes 0 Tick, Call Destroy] scanning) = []
   \<and> terminal (run [PlayEvent, VideoState 4 False, Completes 0 Tick, Call Destroy,
                     Completes 0 (DecodeSettled (Inr ''abc''))] scanning)
   \<and> callbacks (run [PlayEvent, VideoState 4 False, Completes 0 Tick, Call Destroy,
                     Completes 0 (DecodeSettled (Inr ''abc''))] scanning) = [OnDecode ''abc'']"
  by (simp add: scanning_eq run_def onPlay_def scanFrame_def schedule_def log_def resume_def
      animationFrame_def destroy_def stop_def pause_def Let_def decode_settled_def
      terminal_def callbacks_def callback_def)

section \<open>Properties of the scan loop\<close>

text \<open>
  C9 says that a decode which settles after the \<open>active\<close> flag has gone false calls
  neither callback and schedules no further frame. The code does not keep it for a decode
  that succeeds: on the scanning scanner a frame is being decoded, \<open>stop()\<close> is called,
  the decode resolves with \<open>'abc'\<close>, and the decode callback is called with it. (No
  frame is scheduled then: the timer of \<open>stop\<close> is all that is pending.)
\<close>

theorem inactive_decode_callback:
  "pending (run [PlayEvent, VideoState 4 False, Completes 0 Tick] scanning) = [Decode]
   \<and> \<not> active (run [PlayEvent, VideoState 4 False, Completes 0 Tick, Call Stop] scanning)
   \<and> callbacks (run [PlayEvent, VideoState 4 False, Completes 0 Tick, Call Stop] scanning) = []
   \<and> callbacks (run [PlayEvent, VideoState 4 False, Completes 0 Tick, Call Stop,
                     Completes 0 (DecodeSettled (Inr ''abc''))] scanning) = [OnDecode ''abc'']
   \<and> pending (run [PlayEvent, VideoState 4 False, Completes 0 Tick, Call Stop,
                     Completes 0 (DecodeSettled (Inr ''abc''))] scanning) = [PauseTimer]"
  by (simp add: scanning_eq run_def onPlay_def scanFrame_def schedule_def log_def resume_def
      animationFrame_def stop_def pause_def Let_def decode_settled_def
      callbacks_def callback_def)

text \<open>
  What the code keeps of C9: for a scanner that is not active, a decode that fails changes
  nothing, and no decode schedules anything.
\<close>

lemma inactive_decode_settled:
  "\<not> active s \<Longrightarrow>
     decode_settled (Inl e) s = s
     \<and> pending (decode_settled r s) = pending s
     \<and> effects (decode_settled (Inr result) s)
         = effects s @ (if result \<noteq> [] then [OnDecode result] else [])"
  by (simp add: decode_settled_def scanFrame_def log_def Let_def split: sum.split)

lemma not_found_not_unavailable: "\<not> str_includes NO_QR_CODE_FOUND ''service unavailable''"
  by code_simp

text \<open>
  C8. A worker message of type \<open>qrResult\<close> with data \<open>null\<close> makes the request
  reject with \<open>'No QR code found'\<close>; a message of any other type leaves the request as
  it is. In the scan loop this rejection never calls the decode callback. The default
  error handler logs nothing exactly when the error is the string
  \<open>'No QR code found'\<close>, and logs the error otherwise.
\<close>

theorem not_found_response:
  "(messageListener p \<longrightarrow>
      settlements (deliver (MessageEvent ''qrResult'' None) p)
        = settlements p @ [Reject ''No QR code found''])
   \<and> (type \<noteq> ''qrResult'' \<longrightarrow> deliver (MessageEvent type data) p = p)
   \<and> callbacks (decode_settled (awaited (Reject ''No QR code found'')) s)
        = callbacks s @ (if active s \<and> customErrorHandler s
                         then [OnDecodeError (ErrString ''No QR code found'')] else [])
   \<and> (\<not> customErrorHandler s \<longrightarrow>
        (effects (onDecodeError e s) = effects s \<longleftrightarrow> e = ErrString ''No QR code found'')
        \<and> (e \<noteq> ErrString ''No QR code found'' \<longrightarrow>
             effects (onDecodeError e s) = effects s @ [ConsoleLog e]))"
proof (intro conjI impI)
  show "settlements (deliver (MessageEvent ''qrResult'' None) p)
        = settlements p @ [Reject ''No QR code found'']" if "messageListener p"
    using that by (simp add: onMessage_def NO_QR_CODE_FOUND_def)
  show "deliver (MessageEvent type data) p = p" if "type \<noteq> ''qrResult''"
    using that by (simp add: onMessage_def)
  have "callbacks (decode_settled (Inl (ErrString NO_QR_CODE_FOUND)) s)
        = callbacks s @ (if active s \<and> customErrorHandler s
                         then [OnDecodeError (ErrString NO_QR_CODE_FOUND)] else [])"
    by (simp add: decode_settled_def errorMessage_def not_found_not_unavailable
        onDecodeError_def scanFrame_def log_def schedule_def callbacks_def callback_def)
  then show "callbacks (decode_settled (awaited (Reject ''No QR code found'')) s)
        = callbacks s @ (if active s \<and> customErrorHandler s
                         then [OnDecodeError (ErrString ''No QR code found'')] else [])"
    by (simp add: awaited_def NO_QR_CODE_FOUND_def)
  show "effects (onDecodeError e s) = effects s \<longleftrightarrow> e = ErrString ''No QR code found''"
    if "\<not> customErrorHandler s"
    using that by (simp add: onDecodeError_def log_def NO_QR_CODE_FOUND_def)
  show "effects (onDecodeError e s) = effects s @ [ConsoleLog e]"
    if "\<not> customErrorHandler s" and "e \<noteq> ErrString ''No QR code found''"
    using that by (simp add: onDecodeError_def log_def NO_QR_CODE_FOUND_def)
qed

theorem not_found_response_witness:
  "settlements (deliver (MessageEvent ''qrResult'' None) request_posted)
     = [Reject ''No QR code found'']
   \<and> deliver (MessageEvent ''ready'' None) request_posted = request_posted
   \<and> callbacks (decode_settled (awaited (Reject ''No QR code found'')) scanning) = []
   \<and> effects (onDecodeError (ErrString ''Scanner error: timeout'') scanning)
       = effects scanning @ [ConsoleLog (ErrString ''Scanner error: timeout'')]"
  using not_found_response
    [of request_posted "''ready''" None scanning "ErrString ''Scanner error: timeout''"]
  by (simp add: request_posted_def scanning_eq callbacks_def callback_def)

section \<open>Properties of the flash\<close>

text \<open>
  C7 says that every \<open>turnFlashOff\<close> while the flash is on clears the flag and stops the
  tracks of the current stream. The code does not keep it for a scanner that \<open>stop()\<close>
  has made inactive within the last 300 ms: there \<open>pause(true)\<close> returns before it
  stops anything. On the scanning scanner the flash is turned on and \<open>stop()\<close> is
  called; \<open>turnFlashOff\<close> then clears the flag and leaves the stream attached with its
  track unstopped; after a \<open>start()\<close> within the 300 ms the timer of \<open>stop\<close> releases
  nothing either, and the scanner runs on the stream whose torch was turned on, with the
  flag cleared.
\<close>

theorem turnFlashOff_keeps_stream:
  "flashOn (run [Call TurnFlashOn, Completes 0 ApplyResolved, Call Stop] scanning)
   \<and> srcObject (run [Call TurnFlashOn, Completes 0 ApplyResolved, Call Stop] scanning)
        = StreamSrc 0
   \<and> \<not> flashOn (run [Call TurnFlashOn, Completes 0 ApplyResolved, Call Stop, Call TurnFlashOff]
          scanning)
   \<and> srcObject (run [Call TurnFlashOn, Completes 0 ApplyResolved, Call Stop, Call TurnFlashOff]
          scanning) = StreamSrc 0
   \<and> streams (run [Call TurnFlashOn, Completes 0 ApplyResolved, Call Stop, Call TurnFlashOff]
          scanning) 0 = rear_camera
   \<and> ended (run [Call TurnFlashOn, Completes 0 ApplyResolved, Call Stop, Call TurnFlashOff]
          scanning) = {}
   \<and> active (run [Call TurnFlashOn, Completes 0 ApplyResolved, Call Stop, Call TurnFlashOff,
                  Call Start, Completes 0 Expired] scanning)
   \<and> \<not> flashOn (run [Call TurnFlashOn, Completes 0 ApplyResolved, Call Stop, Call TurnFlashOff,
                  Call Start, Completes 0 Expired] scanning)
   \<and> srcObject (run [Call TurnFlashOn, Completes 0 ApplyResolved, Call Stop, Call TurnFlashOff,
                  Call Start, Completes 0 Expired] scanning) = StreamSrc 0
   \<and> ended (run [Call TurnFlashOn, Completes 0 ApplyResolved, Call Stop, Call TurnFlashOff,
                  Call Start, Completes 0 Expired] scanning) = {}
   \<and> effects (run [Call TurnFlashOn, Completes 0 ApplyResolved, Call Stop, Call TurnFlashOff,
                  Call Start, Completes 0 Expired] scanning)
        = effects scanning @ [ApplyTorch 0, PauseResolved False]"
  by (simp add: scanning_eq rear_camera_def run_def turnFlashOn_def flash_checked_def
      torchSupported_def getVideoTracks_def schedule_def log_def resume_def stop_def pause_def
      turnFlashOff_def restartVideoStream_def start_def pause_expired_def Let_def)

text \<open>
  The defect in general: on a scanner that is not active \<open>turnFlashOff\<close> clears the
  flag and touches no stream.
\<close>

lemma turnFlashOff_inactive:
  "flashOn s \<Longrightarrow> \<not> active s \<Longrightarrow> turnFlashOff s = s\<lparr>flashOn := False, paused := True\<rparr>"
  by (simp add: turnFlashOff_def restartVideoStream_def pause_def Let_def)

text \<open>
  What the code keeps of C7: on an active scanner \<open>turnFlashOff\<close> stops and removes the
  tracks of the attached stream; when the scanner was also unpaused, on a visible page
  with media devices, the acquisition of a new stream is begun with the flag cleared; and
  \<open>turnFlashOn\<close> on an unpaused active scanner whose attached stream supports the torch
  leaves the stream as it is.
\<close>

lemma start_keeps:
  "streams (start s) = streams s \<and> ended (start s) = ended s \<and> flashOn (start s) = flashOn s"
  by (simp add: start_def start_failed_def negotiate_def log_def schedule_def Let_def
      split: list.split)

lemma turnFlashOff_active:
  assumes "flashOn s" and "active s" and "srcObject s = StreamSrc sid"
  shows "\<not> flashOn (turnFlashOff s) \<and> streams (turnFlashOff s) sid = []
         \<and> tid ` set (streams s sid) \<subseteq> ended (turnFlashOff s)"
  using assms
  by (simp add: turnFlashOff_def restartVideoStream_def pause_immediate stopStream_stream
      start_keeps)

lemma turnFlashOff_restarts:
  assumes "flashOn s" and "active s" and "\<not> paused s" and "\<not> destroyed s" and "\<not> hidden s"
    and "mediaDevices s" and "srcObject s = StreamSrc sid"
  shows "srcObject (turnFlashOff s) = NoSrc
         \<and> \<not> flashOn (turnFlashOff s)
         \<and> pending (turnFlashOff s) = pending s @ [StartStream (constraintSets (preferredCamera s))]
         \<and> effects (turnFlashOff s)
             = effects s @ [GetUserMedia (hd (constraintSets (preferredCamera s)))]"
  using assms
  by (simp add: turnFlashOff_def restartVideoStream_def pause_immediate stopStream_stream
      start_def negotiate_def log_def schedule_def Let_def constraintSets_explicit
      split: preference_type.split)

lemma turnFlashOn_keeps_stream:
  assumes "\<not> flashOn s" and "\<not> destroyed s" and "active s" and "\<not> paused s"
    and "srcObject s = StreamSrc sid" and "torchSupported (streams s sid)"
  shows "srcObject (turnFlashOn s) = StreamSrc sid \<and> streams (turnFlashOn s) = streams s
         \<and> ended (turnFlashOn s) = ended s \<and> flashOn (turnFlashOn s)
         \<and> pending (turnFlashOn s) = pending s @ [FlashApply]
         \<and> effects (turnFlashOn s)
             = effects s @ [ApplyTorch (tid (hd (getVideoTracks (streams s sid))))]"
  using assms
  by (auto simp: turnFlashOn_def flash_checked_def torchSupported_def log_def schedule_def Let_def
      split: list.splits)

end
